theory Spec2Isabelle
  imports Main "HOL-Library.Sublist" "HOL-Library.List_Lexorder" "HOL-Library.Char_ord"
begin

section \<open>The application object of app.cpp\<close>

text \<open>
  A shallow embedding of \<^verbatim>\<open>src/src/app.cpp\<close> (class \<^verbatim>\<open>CodeBlocksApp\<close> and the
  DDE/IPC classes in its anonymous namespace). Member functions become functions on the
  record \<open>app\<close> of the member variables; what they do to the toolkit, the managers and
  the plugins is recorded as a list of events, in program order. Results of calls into
  code outside app.cpp are parameters of the model.
\<close>

subsection \<open>Member variables\<close>

record app =
  m_Prefix :: string
  m_UserDataDir :: string
  m_DDE :: bool
  m_Assocs :: bool
  m_SafeMode :: bool
  m_Splash :: bool
  m_HasDebugLog :: bool
  m_CrashHandler :: bool
  m_BatchNotify :: bool
  m_BatchWindowAutoClose :: bool
  m_Build :: bool
  m_ReBuild :: bool
  m_Clean :: bool
  m_BatchTarget :: string
  m_Script :: string
  m_Batch :: bool
  m_HasProject :: bool
  m_HasWorkSpace :: bool
  m_AutoFile :: string
  m_DelayedFilesToOpen :: "string list"
  m_DebuggerAttach :: string
  m_DebuggerConfig :: string
  m_BatchExitCode :: int
  m_pBatchBuildDialog :: bool \<comment> \<open>whether the pointer is non-null\<close>
  m_pSingleInstance :: bool \<comment> \<open>whether the pointer is non-null\<close>
  m_Frame :: bool \<comment> \<open>whether the pointer is non-null\<close>
  one_time_only :: bool \<comment> \<open>the function-local static of \<^verbatim>\<open>OnBatchBuildDone\<close>\<close>
  s_Loading :: bool \<comment> \<open>file-scope variable\<close>
  g_DDEServer :: bool \<comment> \<open>file-scope pointer: whether it is non-null\<close>

subsection \<open>Observable effects\<close>

datatype event =
    Call string \<comment> \<open>a call into the toolkit or the SDK whose result is not used\<close>
  | Log string \<comment> \<open>\<^verbatim>\<open>LogManager::Log\<close>\<close>
  | LogError string \<comment> \<open>\<^verbatim>\<open>LogManager::LogError\<close>\<close>
  | SetActiveConfig string nat \<comment> \<open>plugin (by settings name), configuration index\<close>
  | AttachToProcess string string \<comment> \<open>plugin (by settings name), the attach string\<close>
  | OpenFile string bool \<comment> \<open>\<^verbatim>\<open>frame->Open(path, addToHistory)\<close>\<close>
  | GotoLine string int \<comment> \<open>\<^verbatim>\<open>GotoLine(line, true)\<close> on the editor of the path\<close>
  | Execute string \<comment> \<open>\<^verbatim>\<open>connection->Execute(message)\<close>\<close>
  | Disconnect
  | DeleteConnection
  | DeleteClient
  | ConfigWrite string string \<comment> \<open>\<^verbatim>\<open>cfg->Write(key, value)\<close>\<close>
  | ShowErrorMessage string \<comment> \<open>\<^verbatim>\<open>cbException::ShowErrorMessage\<close>\<close>
  | SafeShowMessage string string \<comment> \<open>\<^verbatim>\<open>wxSafeShowMessage(title, text)\<close>\<close>
  | MessageBox string \<comment> \<open>\<^verbatim>\<open>cbMessageBox(text)\<close>\<close>
  | MessageBoxFmt string int \<comment> \<open>\<^verbatim>\<open>cbMessageBox\<close> of a text ending in a formatted integer\<close>

text \<open>What a \<^verbatim>\<open>try\<close> block of app.cpp can catch: a \<^verbatim>\<open>cbException\<close> (with its message), a
  C string, or anything else.\<close>

datatype exn = CbException string | CString string | OtherException

text \<open>The three \<^verbatim>\<open>catch\<close> clauses shared by \<^verbatim>\<open>OnInit\<close> and \<^verbatim>\<open>OnRun\<close>.\<close>

fun report_exception :: "exn \<Rightarrow> event" where
  "report_exception (CbException m) = ShowErrorMessage m"
| "report_exception (CString m) = SafeShowMessage ''Exception'' m"
| "report_exception OtherException =
     SafeShowMessage ''Exception''
       ''Unknown exception was raised. The application will terminate immediately...''"

fun is_LogError :: "event \<Rightarrow> bool" where
  "is_LogError (LogError _) = True"
| "is_LogError _ = False"

text \<open>
  The steps of \<^verbatim>\<open>OnInit\<close> that depend on the batch flag: loading the resources, making the
  IPC client and the DDE server, setting the user variable UI, telling the manager whether
  this is a batch build, scheduling the batch job, showing the main frame.
\<close>

fun is_mode_step :: "event \<Rightarrow> bool" where
  "is_mode_step (Call s) =
     (s \<in> set [''Manager::LoadResource resources.zip'', ''new DDEClient'', ''new DDEServer'',
                ''UserVariableManager::SetUI'', ''Manager::SetBatchBuild(true)'',
                ''Manager::SetBatchBuild(false)'', ''CallAfter BatchJob'', ''frame->Show''])"
| "is_mode_step _ = False"

text \<open>The reports of the \<^verbatim>\<open>catch\<close> clauses.\<close>

fun is_report :: "event \<Rightarrow> bool" where
  "is_report (ShowErrorMessage _) = True"
| "is_report (SafeShowMessage _ _) = True"
| "is_report _ = False"

text \<open>The effects on the connection to a running instance.\<close>

fun is_ipc :: "event \<Rightarrow> bool" where
  "is_ipc (Execute _) = True"
| "is_ipc Disconnect = True"
| "is_ipc DeleteConnection = True"
| "is_ipc DeleteClient = True"
| "is_ipc _ = False"

fun is_ConfigWrite :: "event \<Rightarrow> bool" where
  "is_ConfigWrite (ConfigWrite _ _) = True"
| "is_ConfigWrite _ = False"

fun is_attach :: "event \<Rightarrow> bool" where
  "is_attach (SetActiveConfig _ _) = True"
| "is_attach (AttachToProcess _ _) = True"
| "is_attach _ = False"

subsection \<open>String primitives of the toolkit\<close>

text \<open>\<^verbatim>\<open>wxString::find(ch)\<close>: the index of the first occurrence, \<open>None\<close> for \<^verbatim>\<open>npos\<close>.\<close>

fun find_char :: "char \<Rightarrow> string \<Rightarrow> nat option" where
  "find_char c [] = None"
| "find_char c (x # xs) =
     (if x = c then Some 0 else map_option Suc (find_char c xs))"

text \<open>The index of the first element satisfying a predicate (a loop with \<^verbatim>\<open>break\<close>).\<close>

fun first_index :: "('a \<Rightarrow> bool) \<Rightarrow> 'a list \<Rightarrow> nat option" where
  "first_index P [] = None"
| "first_index P (x # xs) =
     (if P x then Some 0 else map_option Suc (first_index P xs))"

text \<open>\<^verbatim>\<open>wxString::Find(ch, true)\<close>: the index of the last occurrence, \<open>None\<close> for
  \<^verbatim>\<open>wxNOT_FOUND\<close>.\<close>

definition find_last :: "char \<Rightarrow> string \<Rightarrow> nat option" where
  "find_last c s = map_option (\<lambda>i. length s - 1 - i) (find_char c (rev s))"

subsection \<open>Searching and replacing in strings\<close>

text \<open>
  \<^verbatim>\<open>s.find(pat)\<close>: the index of the first occurrence of \<open>pat\<close> in \<open>s\<close>, \<open>None\<close> for
  \<^verbatim>\<open>npos\<close>; \<^verbatim>\<open>s.find(pat, pos)\<close> starts looking at index \<open>pos\<close>.
\<close>

fun find_str :: "string \<Rightarrow> string \<Rightarrow> nat option" where
  "find_str pat [] = (if pat = [] then Some 0 else None)"
| "find_str pat (c # cs) =
     (if prefix pat (c # cs) then Some 0 else map_option Suc (find_str pat cs))"

definition find_from :: "string \<Rightarrow> nat \<Rightarrow> string \<Rightarrow> nat option" where
  "find_from pat pos s =
     (if pos \<le> length s then map_option (\<lambda>i. pos + i) (find_str pat (drop pos s)) else None)"

text \<open>\<^verbatim>\<open>s.substr(pos, n)\<close> for \<open>pos\<close> within the string.\<close>

definition substr :: "string \<Rightarrow> nat \<Rightarrow> nat \<Rightarrow> string" where
  "substr s pos n = take n (drop pos s)"

text \<open>\<^verbatim>\<open>s.Contains(pat)\<close>.\<close>

definition Contains :: "string \<Rightarrow> string \<Rightarrow> bool" where
  "Contains s pat \<longleftrightarrow> find_str pat s \<noteq> None"

text \<open>
  \<^verbatim>\<open>s.Replace(old, new)\<close> replaces all occurrences of \<open>old\<close>, scanning from the left and
  continuing after each replacement; an empty \<open>old\<close> changes nothing. The value is the
  string after the call.
\<close>

fun Replace :: "string \<Rightarrow> string \<Rightarrow> string \<Rightarrow> string" where
  "Replace old new [] = []"
| "Replace old new (c # cs) =
     (if old \<noteq> [] \<and> prefix old (c # cs)
      then new @ Replace old new (drop (length old) (c # cs))
      else c # Replace old new cs)"

text \<open>The backslash.\<close>

definition bsl :: char where
  "bsl = CHR 0x5C"

section \<open>AttachDebugger\<close>

text \<open>
  A registered debugger plugin, as far as \<^verbatim>\<open>AttachDebugger\<close> looks at it: its settings
  name, its GUI name and the names of its configurations in vector order. The argument
  \<open>debuggers\<close> lists \<^verbatim>\<open>DebuggerManager::GetAllDebuggers()\<close> in iteration order.
\<close>

record debugger_plugin =
  SettingsName :: string
  GUIName :: string
  Configurations :: "string list"

definition msg_need_both :: string where
  "msg_need_both =
     ''For attaching to work you need to provide both '' @ [CHR 0x27] @ ''--dbg-attach'' @
     [CHR 0x27] @ '' and '' @ [CHR 0x27] @ ''--dbg-config'' @ [CHR 0x27]"

definition msg_no_delimiter :: string where
  "msg_no_delimiter =
     ''No delimiter found. The --dbg-config format is '' @ [CHR 0x27] @
     ''plugin-name:config-name'' @ [CHR 0x27]"

definition quoted :: "string \<Rightarrow> string" where
  "quoted s = [CHR 0x27] @ s @ [CHR 0x27]"

definition AttachDebugger :: "debugger_plugin list \<Rightarrow> app \<Rightarrow> app \<times> event list" where
  "AttachDebugger debuggers a =
    (let localAttach = m_DebuggerAttach a;
         localConfig = m_DebuggerConfig a;
         a' = a\<lparr>m_DebuggerAttach := [], m_DebuggerConfig := []\<rparr>
     in
       if localAttach = [] \<or> localConfig = [] then
         (if (localAttach = []) \<noteq> (localConfig = []) then
            (a', [LogError msg_need_both,
                  Log (''    --dbg-attach='' @ quoted localAttach),
                  Log (''    --dbg-config='' @ quoted localConfig)])
          else (a', []))
       else
         let ev0 = [Log (''Attach debugger '' @ quoted localConfig @ '' to '' @ quoted localAttach)]
         in
           case find_char CHR '':'' localConfig of
             None \<Rightarrow> (a', ev0 @ [LogError msg_no_delimiter])
           | Some pos \<Rightarrow>
               if pos = 0 then (a', ev0 @ [LogError msg_no_delimiter])
               else
                 let pluginName = take pos localConfig;
                     configName = drop (pos + 1) localConfig
                 in
                   if debuggers = [] then
                     (a', ev0 @ [LogError ''No debugger plugins loaded!''])
                   else
                     (case find (\<lambda>info. SettingsName info = pluginName) debuggers of
                       None \<Rightarrow>
                         (a', ev0 @
                            [LogError (''Debugger plugin '' @ quoted pluginName @ '' not found!''),
                             Log ''Available plugins:''] @
                            map (\<lambda>p. Log (''    '' @ quoted (SettingsName p) @ '' ('' @
                                            GUIName p @ '')'')) debuggers)
                     | Some plugin \<Rightarrow>
                         (case first_index (\<lambda>c. c = configName) (Configurations plugin) of
                            None \<Rightarrow>
                              (a', ev0 @
                                 [LogError (''Debugger configuration '' @ quoted configName @
                                            '' not found!''),
                                  Log ''Available configurations:''] @
                                 map (\<lambda>c. Log (''    '' @ quoted c)) (Configurations plugin))
                          | Some configIndex \<Rightarrow>
                              (a', ev0 @
                                 [Log ''Debugger plugin and configuration found. Attaching!!!'',
                                  SetActiveConfig (SettingsName plugin) configIndex,
                                  AttachToProcess (SettingsName plugin) localAttach]))))"

section \<open>LoadDelayedFiles\<close>

subsection \<open>Toolkit functions it uses\<close>

text \<open>
  \<^verbatim>\<open>wxString::ToLong(&val)\<close> is toolkit code. It runs the C library's \<^verbatim>\<open>strtol\<close> in base
  10 (optional white space, an optional sign, then digits) and
  \<^item> returns false and leaves \<^verbatim>\<open>val\<close> alone when no digits were converted or the value is
    out of the range of \<^verbatim>\<open>long\<close>;
  \<^item> otherwise stores the value and returns whether the whole string was consumed;
  so a string such as \<^verbatim>\<open>12abc\<close> gives false with 12 stored. \<^verbatim>\<open>long\<close> has 32 bits on the
  MSW target of this repository.
\<close>

definition is_space :: "char \<Rightarrow> bool" where
  "is_space c \<longleftrightarrow> c \<in> set [CHR '' '', CHR 0x09, CHR 0x0A, CHR 0x0B, CHR 0x0C, CHR 0x0D]"

definition is_digit :: "char \<Rightarrow> bool" where
  "is_digit c \<longleftrightarrow> CHR ''0'' \<le> c \<and> c \<le> CHR ''9''"

definition digit_val :: "char \<Rightarrow> int" where
  "digit_val c = int (of_char c) - 48"

definition digits_value :: "string \<Rightarrow> int" where
  "digits_value ds = foldl (\<lambda>acc c. 10 * acc + digit_val c) 0 ds"

text \<open>The converted value and the unconsumed rest; \<open>None\<close> when nothing was converted.\<close>

definition strtol :: "string \<Rightarrow> (int \<times> string) option" where
  "strtol s =
     (let s1 = dropWhile is_space s;
          neg = (s1 \<noteq> [] \<and> hd s1 = CHR ''-'');
          s2 = (if s1 \<noteq> [] \<and> (hd s1 = CHR ''-'' \<or> hd s1 = CHR ''+'') then tl s1 else s1);
          ds = takeWhile is_digit s2
      in if ds = [] then None
         else Some (if neg then - digits_value ds else digits_value ds, dropWhile is_digit s2))"

definition LONG_MAX :: int where "LONG_MAX = 2147483647"

definition LONG_MIN :: int where "LONG_MIN = - 2147483648"

text \<open>The second argument is the value of \<^verbatim>\<open>val\<close> before the call; the result is the
  returned flag and the value of \<^verbatim>\<open>val\<close> after it.\<close>

definition ToLong :: "string \<Rightarrow> int \<Rightarrow> bool \<times> int" where
  "ToLong s val0 =
     (case strtol s of
        None \<Rightarrow> (False, val0)
      | Some (v, rest) \<Rightarrow>
          if v < LONG_MIN \<or> LONG_MAX < v then (False, val0) else (rest = [], v))"

text \<open>Arithmetic on \<^verbatim>\<open>long\<close> wraps around at 32 bits.\<close>

definition wrap_long :: "int \<Rightarrow> int" where
  "wrap_long i = (i + 2147483648) mod 4294967296 - 2147483648"

subsection \<open>The main frame and the editor manager, as seen from here\<close>

text \<open>
  \<open>frame_Open path addToHistory\<close> is the result of \<^verbatim>\<open>frame->Open\<close>; \<open>GetEditor path\<close>
  tells whether \<^verbatim>\<open>EditorManager::GetEditor\<close> returns an editor; \<open>Normalize path\<close> is
  the full path of a \<^verbatim>\<open>wxFileName\<close> after \<^verbatim>\<open>Normalize\<close> with the flags used in app.cpp.
\<close>

record frame_env =
  frame_Open :: "string \<Rightarrow> bool \<Rightarrow> bool"
  GetEditor :: "string \<Rightarrow> bool"
  Normalize :: "string \<Rightarrow> string"

subsection \<open>The function\<close>

text \<open>
  The \<^verbatim>\<open>std::set\<close> built from the queue iterates in ascending order without duplicates.
  \<open>parsed\<close> is the outcome of \<^verbatim>\<open>linePart.ToLong(&line)\<close> with \<^verbatim>\<open>line\<close> initially -1; it is
  only run when a colon was found.
\<close>

definition LoadDelayedFiles :: "frame_env \<Rightarrow> app \<Rightarrow> app \<times> event list" where
  "LoadDelayedFiles fe a =
    (let uniqueFilesToOpen = sort (remdups (m_DelayedFilesToOpen a));
         ev1 = map (\<lambda>f. OpenFile f True) uniqueFilesToOpen;
         a1 = a\<lparr>m_DelayedFilesToOpen := []\<rparr>
     in
       if m_AutoFile a1 \<noteq> [] then
         let autoFile = m_AutoFile a1;
             linePos = find_last CHR '':'' autoFile;
             linePart = (case linePos of None \<Rightarrow> [] | Some p \<Rightarrow> drop (p + 1) autoFile);
             filePart0 = (case linePos of None \<Rightarrow> autoFile | Some p \<Rightarrow> take p autoFile);
             parsed = (case linePos of None \<Rightarrow> (True, - 1) | Some p \<Rightarrow> ToLong linePart (- 1));
             line = snd parsed;
             filePart = (if linePos \<noteq> None \<and> \<not> fst parsed then autoFile else filePart0);
             ev2 = (if filePart \<noteq> [] then
                      let fullPath = Normalize fe filePart
                      in OpenFile fullPath False #
                         (if frame_Open fe fullPath False \<and> GetEditor fe fullPath \<and> line \<noteq> - 1
                          then [GotoLine fullPath (wrap_long (line - 1))] else [])
                    else [])
         in (a1\<lparr>m_AutoFile := []\<rparr>, ev1 @ ev2)
       else (a1, ev1))"

section \<open>LoadConfig\<close>

text \<open>\<^verbatim>\<open>platform::windows\<close> and \<^verbatim>\<open>platform::macosx\<close> are constants of the build.\<close>

datatype platform = Windows | MacOSX | OtherPlatform

text \<open>
  What \<^verbatim>\<open>LoadConfig\<close> and \<^verbatim>\<open>GetAppPath\<close> get from outside app.cpp: the platform, the
  \<^verbatim>\<open>APP_PREFIX\<close> macro, the directory of the module (MSW) or of the executable (elsewhere),
  the bundle's resources directory, whether \<^verbatim>\<open>ConfigManager::SetUserDataFolder\<close> succeeds,
  the environment variable, and for \<^verbatim>\<open>wxFileName(data)\<close>: whether it is relative, its full
  path after \<^verbatim>\<open>MakeAbsolute\<close>, and its full path as it is.
\<close>

record config_env =
  the_platform :: platform
  APP_PREFIX :: string
  module_dir :: string
  executable_dir :: string
  ResourcesDir :: string
  SetUserDataFolder :: "string \<Rightarrow> bool"
  CODEBLOCKS_DATA_DIR :: "string option"
  fn_IsRelative :: "string \<Rightarrow> bool"
  fn_MakeAbsolute :: "string \<Rightarrow> string"
  fn_GetFullPath :: "string \<Rightarrow> string"

definition GetAppPath :: "config_env \<Rightarrow> app \<Rightarrow> string" where
  "GetAppPath ce a =
     (if the_platform ce = Windows then module_dir ce
      else if m_Prefix a \<noteq> [] then m_Prefix a
      else if executable_dir ce = [] then ''.'' else executable_dir ce)"

text \<open>The value of \<^verbatim>\<open>data\<close> after lines 374-389: the base the platform gives.\<close>

definition platform_base :: "config_env \<Rightarrow> app \<Rightarrow> string" where
  "platform_base ce a =
     (let data0 = APP_PREFIX ce;
          data1 = (if the_platform ce = Windows then GetAppPath ce a
                   else if the_platform ce = MacOSX then
                     (if \<not> Contains (ResourcesDir ce) ''/Resources''
                      then GetAppPath ce a @ ''/..'' else ResourcesDir ce)
                   else data0)
      in if data1 = [] then Replace ''/bin'' [] (GetAppPath ce a) else data1)"

text \<open>Lines 408-411: the path goes through \<^verbatim>\<open>wxFileName\<close> and is made absolute if relative.\<close>

definition absolute_path :: "config_env \<Rightarrow> string \<Rightarrow> string" where
  "absolute_path ce data =
     (if fn_IsRelative ce data then fn_MakeAbsolute ce data else fn_GetFullPath ce data)"

definition LoadConfig :: "config_env \<Rightarrow> app \<Rightarrow> bool \<times> event list" where
  "LoadConfig ce a =
    (if m_UserDataDir a \<noteq> [] \<and> \<not> SetUserDataFolder ce (m_UserDataDir a) then
       (False, [Call (''ConfigManager::SetUserDataFolder '' @ m_UserDataDir a)])
     else
       let ev0 = (if m_UserDataDir a \<noteq> []
                  then [Call (''ConfigManager::SetUserDataFolder '' @ m_UserDataDir a)] else []);
           data = platform_base ce a;
           env = (case CODEBLOCKS_DATA_DIR ce of None \<Rightarrow> [] | Some v \<Rightarrow> v);
           data = (if m_Prefix a \<noteq> [] then m_Prefix a
                   else if env \<noteq> [] then env else data);
           data = data @ ''/share/codeblocks'';
           data = absolute_path ce data
       in (True, ev0 @ [ConfigWrite ''data_path'' data]))"

section \<open>ParseCmdLine\<close>

subsection \<open>The command line parser, as seen from here\<close>

text \<open>
  What the toolkit's \<^verbatim>\<open>wxCmdLineParser\<close> reports after \<^verbatim>\<open>Parse(false)\<close>: the result of
  \<^verbatim>\<open>Parse\<close> (-1 when help was requested), the switches and the options with their values
  that were found, and the positional parameters in order.
\<close>

record cmdline =
  parse_res :: int
  switches :: "string list"
  options :: "(string \<times> string) list"
  params :: "string list"

text \<open>\<^verbatim>\<open>parser.Found(name)\<close> for a switch.\<close>

definition Found :: "cmdline \<Rightarrow> string \<Rightarrow> bool" where
  "Found cl name \<longleftrightarrow> name \<in> set (switches cl)"

text \<open>\<^verbatim>\<open>parser.Found(name, &var)\<close> for an option: \<open>var\<close> is assigned only when the option
  was found.\<close>

definition FoundValue :: "cmdline \<Rightarrow> string \<Rightarrow> string \<Rightarrow> string" where
  "FoundValue cl name var = (case map_of (options cl) name of None \<Rightarrow> var | Some v \<Rightarrow> v)"

text \<open>
  The SDK's \<^verbatim>\<open>FileType\<close> enumeration is declared outside app.cpp; the code here only tells
  projects and workspaces from everything else, so the other enumerators are one value.
\<close>

datatype FileType = ftCodeBlocksProject | ftCodeBlocksWorkspace | ftOtherKind

text \<open>
  The file system and the SDK: \<open>FileTypeOf\<close> classifies a file name, \<open>NormalizeCwd cwd p\<close>
  is the full path of \<^verbatim>\<open>wxFileName(p)\<close> after \<^verbatim>\<open>Normalize(flags, cwd)\<close>, \<open>IsRelative\<close> and
  \<open>MakeAbsolute cwd p\<close> are those of \<^verbatim>\<open>wxFileName\<close>, \<open>FileExists\<close> is \<^verbatim>\<open>wxFile::Exists\<close>.
\<close>

record parse_env =
  FileTypeOf :: "string \<Rightarrow> FileType"
  NormalizeCwd :: "string \<Rightarrow> string \<Rightarrow> string"
  IsRelative :: "string \<Rightarrow> bool"
  MakeAbsolute :: "string \<Rightarrow> string \<Rightarrow> string"
  FileExists :: "string \<Rightarrow> bool"

subsection \<open>The loop over the positional parameters\<close>

text \<open>The \<^verbatim>\<open>for\<close> loop of lines 1191-1221; the workspace case leaves the loop.\<close>

fun scan_params :: "parse_env \<Rightarrow> string \<Rightarrow> string list \<Rightarrow> app \<Rightarrow> app" where
  "scan_params pe CWD [] a = a"
| "scan_params pe CWD (strParam # rest) a =
     (let paramFullPath = NormalizeCwd pe CWD strParam;
          ft = FileTypeOf pe strParam
      in
        if ft = ftCodeBlocksProject then
          scan_params pe CWD rest
            (a\<lparr>m_HasProject := True,
               m_DelayedFilesToOpen := m_DelayedFilesToOpen a @ [paramFullPath]\<rparr>)
        else if ft = ftCodeBlocksWorkspace then
          a\<lparr>m_HasWorkSpace := True, m_DelayedFilesToOpen := [paramFullPath]\<rparr>
        else if FileExists pe paramFullPath then
          scan_params pe CWD rest
            (a\<lparr>m_DelayedFilesToOpen := m_DelayedFilesToOpen a @ [paramFullPath]\<rparr>)
        else scan_params pe CWD rest a)"

subsection \<open>The function\<close>

text \<open>
  \<open>handlerFrame\<close> tells whether the frame pointer is non-null. \<open>cl\<close> is the parser's report
  on the command line selected by \<^verbatim>\<open>CmdLineString\<close> (the process arguments when that string
  is empty). The result is the returned integer, the new state and the effects.
\<close>

definition ParseCmdLine ::
  "parse_env \<Rightarrow> bool \<Rightarrow> cmdline \<Rightarrow> string \<Rightarrow> app \<Rightarrow> int \<times> app \<times> event list" where
  "ParseCmdLine pe handlerFrame cl CWD a =
    (if parse_res cl = - 1 then (- 1, a, [])
     else if handlerFrame then
       (let a1 = a\<lparr>m_HasProject := False, m_HasWorkSpace := False\<rparr>;
            ev = [Call ''UserVariableManager::ParseCommandLine''];
            count = length (params cl);
            a2 = a1\<lparr>m_AutoFile := FoundValue cl ''file'' (m_AutoFile a1)\<rparr>;
            a3 = (if m_AutoFile a2 \<noteq> [] \<and> CWD \<noteq> [] \<and> IsRelative pe (m_AutoFile a2)
                  then a2\<lparr>m_AutoFile := MakeAbsolute pe CWD (m_AutoFile a2)\<rparr> else a2);
            filesInCmdLine = (count \<noteq> 0 \<or> m_AutoFile a3 \<noteq> []);
            a4 = scan_params pe CWD (params cl) a3;
            a5 = a4\<lparr>m_Batch := (m_HasProject a4 \<or> m_HasWorkSpace a4)\<rparr>;
            a6 = a5\<lparr>m_Batch := (m_Batch a5 \<and> (m_Build a5 \<or> m_ReBuild a5 \<or> m_Clean a5))\<rparr>;
            a7 = a6\<lparr>m_DebuggerAttach := FoundValue cl ''dbg-attach'' (m_DebuggerAttach a6),
                    m_DebuggerConfig := FoundValue cl ''dbg-config'' (m_DebuggerConfig a6)\<rparr>
        in (if filesInCmdLine then 1 else 0, a7, ev))
     else
       (let a1 = a\<lparr>m_Prefix := FoundValue cl ''prefix'' (m_Prefix a),
                   m_UserDataDir := FoundValue cl ''user-data-dir'' (m_UserDataDir a),
                   m_DDE := \<not> Found cl ''no-dde'',
                   m_Assocs := \<not> Found cl ''no-check-associations'',
                   m_SafeMode := Found cl ''safe-mode'',
                   m_Splash := \<not> Found cl ''no-splash-screen'',
                   m_HasDebugLog := Found cl ''debug-log'',
                   m_CrashHandler := \<not> Found cl ''no-crash-handler''\<rparr>;
            ev1 = [Call (if Found cl ''verbose'' then ''wxLog::EnableLogging(true)''
                         else ''wxLog::EnableLogging(false)'')];
            ev2 = (case map_of (options cl) ''personality'' of
                     Some val \<Rightarrow> [Call (''SetupPersonality '' @ val)]
                   | None \<Rightarrow>
                       (case map_of (options cl) ''profile'' of
                          Some val \<Rightarrow> [Call (''SetupPersonality '' @ val)]
                        | None \<Rightarrow> []));
            a2 = a1\<lparr>m_BatchNotify := Found cl ''batch-build-notify'',
                    m_BatchWindowAutoClose := \<not> Found cl ''no-batch-window-close'',
                    m_Build := Found cl ''build'',
                    m_ReBuild := Found cl ''rebuild'',
                    m_Clean := Found cl ''clean'',
                    m_BatchTarget := FoundValue cl ''target'' (m_BatchTarget a1),
                    m_Script := FoundValue cl ''script'' (m_Script a1)\<rparr>;
            a3 = a2\<lparr>m_Batch := (m_Build a2 \<or> m_ReBuild a2 \<or> m_Clean a2)\<rparr>;
            ev3 = (if \<not> Found cl ''no-log'' then [Call ''SetLog TextCtrlLogger app_log''] else []) @
                  (if Found cl ''log-to-file'' then [Call ''SetLog FileLogger app_log''] else []) @
                  (if m_HasDebugLog a3 then [Call ''SetLog TextCtrlLogger debug_log''] else []) @
                  (if Found cl ''debug-log-to-file'' then [Call ''SetLog FileLogger debug_log'']
                   else []);
            a4 = a3\<lparr>m_DebuggerAttach := FoundValue cl ''dbg-attach'' (m_DebuggerAttach a3),
                    m_DebuggerConfig := FoundValue cl ''dbg-config'' (m_DebuggerConfig a3)\<rparr>
        in (0, a4, ev1 @ ev2 @ ev3)))"

section \<open>Batch build: OnBatchBuildDone, OnRun, OnExit\<close>

text \<open>
  The handler of \<^verbatim>\<open>cbEVT_COMPILER_FINISHED\<close>; \<open>code\<close> is the exit code of the compiler
  plugin that sent the event.
\<close>

definition OnBatchBuildDone :: "int \<Rightarrow> app \<Rightarrow> app \<times> event list" where
  "OnBatchBuildDone code a =
    (if \<not> m_Batch a \<or> one_time_only a then (a, [Call ''event.Skip''])
     else
       let a1 = a\<lparr>one_time_only := True\<rparr>;
           a2 = a1\<lparr>m_BatchExitCode := code\<rparr>;
           ev1 = (if m_BatchNotify a2 then
                    [MessageBoxFmt
                       ((if m_BatchExitCode a2 = 0 then ''Batch build ended.''
                         else ''Batch build stopped with errors.'') @ [CHR 0x0A] @
                        ''Process exited with status code %d.'')
                       (m_BatchExitCode a2)]
                  else [Call ''wxBell'']);
           ev2 = (if m_pBatchBuildDialog a2 \<and> m_BatchWindowAutoClose a2
                  then [Call ''CallAfter m_pBatchBuildDialog->Close''] else [])
       in (a2, Call ''event.Skip'' # ev1 @ ev2))"

text \<open>The toolkit's event loop delivers compiler-finished events, one after the other.\<close>

fun deliver :: "int list \<Rightarrow> app \<Rightarrow> app \<times> event list" where
  "deliver [] a = (a, [])"
| "deliver (code # codes) a =
     (let (a1, ev1) = OnBatchBuildDone code a;
          (a2, ev2) = deliver codes a1
      in (a2, ev1 @ ev2))"

text \<open>
  \<^verbatim>\<open>OnRun\<close> runs the toolkit's \<^verbatim>\<open>wxApp::OnRun\<close> inside \<^verbatim>\<open>try\<close>. Here the loop delivers the
  events \<open>codes\<close> and then ends as \<open>loop_end\<close> says: by returning a value or by throwing.
\<close>

definition OnRun :: "int list \<Rightarrow> exn + int \<Rightarrow> app \<Rightarrow> int \<times> app \<times> event list" where
  "OnRun codes loop_end a =
    (let (a1, ev1) = deliver codes a
     in case loop_end of
          Inr retval \<Rightarrow>
            (if m_Batch a1 then m_BatchExitCode a1 else retval, a1, Call ''EnableLFH'' # ev1)
        | Inl e \<Rightarrow> (- 1, a1, Call ''EnableLFH'' # ev1 @ [report_exception e]))"

text \<open>\<open>clipboard_opened\<close> is \<^verbatim>\<open>wxTheClipboard->IsOpened()\<close>.\<close>

definition OnExit :: "bool \<Rightarrow> app \<Rightarrow> int \<times> event list" where
  "OnExit clipboard_opened a =
    (if m_Batch a then m_BatchExitCode a else 0,
     (if clipboard_opened then [Call ''wxTheClipboard->Flush'', Call ''wxTheClipboard->Close'']
      else []) @
     (if g_DDEServer a then [Call ''delete g_DDEServer''] else []) @
     (if m_pSingleInstance a then [Call ''delete m_pSingleInstance''] else []) @
     [Call ''Manager::Free''])"

section \<open>The DDE/IPC messages\<close>

subsection \<open>Sending the command line\<close>

text \<open>
  Lines 686-696 of \<^verbatim>\<open>OnInit\<close>: the arguments are joined, each followed by a space, the
  parentheses are escaped and the message is built around the command line and the
  current working directory.
\<close>

definition join_args :: "string list \<Rightarrow> string" where
  "join_args args = concat (map (\<lambda>arg. arg @ '' '') args)"

definition escape_parens :: "string \<Rightarrow> string" where
  "escape_parens cmdLine = Replace '')'' [bsl, CHR '')''] (Replace ''('' [bsl, CHR ''(''] cmdLine)"

definition CmdLine_message :: "string \<Rightarrow> string \<Rightarrow> string" where
  "CmdLine_message cmdLine cwd =
     ''[CmdLine({'' @ escape_parens cmdLine @ ''})CWD({'' @ cwd @ ''})]''"

subsection \<open>Receiving: DDEConnection::OnExecute\<close>

text \<open>The replacements applied to both payloads on the receiving side.\<close>

definition unescape_parens :: "string \<Rightarrow> string" where
  "unescape_parens t = Replace [bsl, CHR ''(''] ''('' (Replace [bsl, CHR '')''] '')'' t)"

text \<open>
  Lines 158-177: the values of \<^verbatim>\<open>cmdLine\<close> and \<^verbatim>\<open>cwd\<close> when the test of line 179 is
  reached. \<^verbatim>\<open>cbCountOf\<close> of a string literal is its length with the final zero, so the
  two counts are 10 and 7.
\<close>

definition CmdLine_payloads :: "string \<Rightarrow> string \<times> string" where
  "CmdLine_payloads strData =
     (case find_str ''})CWD({'' strData of
        None \<Rightarrow> ([], [])
      | Some posCwd \<Rightarrow>
          let coundCmdLind = 10;
              countCWD = 7;
              cmdLine = unescape_parens (substr strData coundCmdLind (posCwd - coundCmdLind));
              cwd = (case find_from ''})]'' (posCwd + countCWD) strData of
                       None \<Rightarrow> []
                     | Some posEnd \<Rightarrow>
                         unescape_parens
                           (substr strData (posCwd + countCWD) (posEnd - (posCwd + countCWD))))
          in (cmdLine, cwd))"

text \<open>
  The toolkit's regular expression \<^verbatim>\<open>"(.*)"\<close> applied to a message: the text between the
  first and the last double quote, when there are two.
\<close>

definition dq :: char where
  "dq = CHR 0x22"

definition quoted_match :: "string \<Rightarrow> string option" where
  "quoted_match s =
     (case (find_char dq s, find_last dq s) of
        (Some i, Some j) \<Rightarrow> if i < j then Some (take (j - i - 1) (drop (i + 1) s)) else None
      | _ \<Rightarrow> None)"

text \<open>
  \<open>frame\<close> tells whether the connection has a frame; \<open>parse_string\<close> is the toolkit's
  command line parser run on a string; \<open>iconized\<close> is \<^verbatim>\<open>m_Frame->IsIconized()\<close>.
\<close>

definition OnExecute ::
  "(string \<Rightarrow> cmdline) \<Rightarrow> parse_env \<Rightarrow> bool \<Rightarrow> bool \<Rightarrow> string \<Rightarrow> app \<Rightarrow>
     bool \<times> app \<times> event list" where
  "OnExecute parse_string pe iconized frame strData a =
    (if prefix (''[IfExec_Open('' @ [dq]) strData then (False, a, [])
     else if prefix (''[Open('' @ [dq]) strData then
       (case quoted_match strData of
          Some file \<Rightarrow> (True, a\<lparr>m_DelayedFilesToOpen := m_DelayedFilesToOpen a @ [file]\<rparr>, [])
        | None \<Rightarrow> (True, a, []))
     else if prefix (''[OpenLine('' @ [dq]) strData then
       (case quoted_match strData of
          Some file \<Rightarrow> (True, a\<lparr>m_AutoFile := file\<rparr>, [])
        | None \<Rightarrow> (True, a, []))
     else if prefix ''[Raise]'' strData then
       (True, a,
        if frame then (if iconized then [Call ''m_Frame->Iconize(false)''] else []) @
                      [Call ''m_Frame->Raise'']
        else [])
     else if prefix ''[CmdLine({'' strData then
       (let cmdLine = fst (CmdLine_payloads strData);
            cwd = snd (CmdLine_payloads strData)
        in if cmdLine \<noteq> [] \<and> cwd \<noteq> [] \<and> frame then
             (let parsed = ParseCmdLine pe True (parse_string cmdLine) cwd a
              in (True, fst (snd parsed),
                  snd (snd parsed) @ [Call ''ProcessEvent cbEVT_APP_CMDLINE'']))
           else (True, a, []))
     else (False, a, [SafeShowMessage ''Warning'' (''DDE topic '' @ strData @ '' not handled.'')]))"

subsection \<open>Auxiliary functions for the proofs\<close>

text \<open>What escaping does to one character, and what is left of it after the first of the
  two replacements on the receiving side.\<close>

definition esc_char :: "char \<Rightarrow> string" where
  "esc_char x = (if x = CHR ''('' \<or> x = CHR '')'' then [bsl, x] else [x])"

definition mid_char :: "char \<Rightarrow> string" where
  "mid_char x = (if x = CHR ''('' then [bsl, x] else [x])"

section \<open>OnInit\<close>

text \<open>
  What \<^verbatim>\<open>OnInit\<close> gets from outside app.cpp: the process arguments after the program
  name and the parser's report on them, the environments of the functions it calls, the
  configuration keys it reads, and the results of the toolkit and SDK calls it branches on.
  \<open>i_throw\<close> says whether some call made by \<^verbatim>\<open>OnInit\<close> throws: \<open>Some (k, x)\<close> means that
  the call with index \<open>k\<close> in the sequence of its calls, counted from the first line of the
  function, throws \<open>x\<close>.
\<close>

record init_env =
  i_argv :: "string list"
  i_cmdline :: cmdline
  i_parse :: parse_env
  i_config :: config_env
  i_frame :: frame_env
  i_debuggers :: "debugger_plugin list"
  i_clipboard_opened :: bool
  i_LoadResource :: bool \<comment> \<open>\<^verbatim>\<open>Manager::LoadResource("resources.zip")\<close>\<close>
  i_use_ipc :: bool \<comment> \<open>\<^verbatim>\<open>/environment/use_ipc\<close>\<close>
  i_raise_via_ipc :: bool \<comment> \<open>\<^verbatim>\<open>/environment/raise_via_ipc\<close>\<close>
  i_single_instance :: bool \<comment> \<open>\<^verbatim>\<open>/environment/single_instance\<close>\<close>
  i_show_splash :: bool \<comment> \<open>\<^verbatim>\<open>/environment/show_splash\<close>\<close>
  i_blank_workspace :: bool \<comment> \<open>\<^verbatim>\<open>/environment/blank_workspace\<close>\<close>
  i_MakeConnection :: bool \<comment> \<open>whether \<^verbatim>\<open>client->MakeConnection\<close> returns a connection\<close>
  i_GetCwd :: string \<comment> \<open>\<^verbatim>\<open>wxGetCwd()\<close>\<close>
  i_IsAnotherRunning :: bool
  i_script_data :: bool \<comment> \<open>whether \<^verbatim>\<open>loader->GetData()\<close> is non-null\<close>
  i_startup_script :: string \<comment> \<open>\<^verbatim>\<open>LocateDataFile("startup.script", ...)\<close>\<close>
  i_LoadScript :: bool
  i_crashReportName :: string \<comment> \<open>as \<^verbatim>\<open>InitExceptionHandler\<close> leaves it\<close>
  i_throw :: "(nat \<times> exn) option"

subsection \<open>Before the try block (lines 590-638)\<close>

definition OnInit_pre :: "init_env \<Rightarrow> app \<Rightarrow> app \<times> event list" where
  "OnInit_pre env a =
    (a\<lparr>s_Loading := True, m_pBatchBuildDialog := False, m_BatchExitCode := 0,
       m_Batch := False, m_BatchNotify := False, m_Build := False, m_ReBuild := False,
       m_Clean := False, m_HasProject := False, m_HasWorkSpace := False,
       m_SafeMode := False, m_BatchWindowAutoClose := True, m_pSingleInstance := False\<rparr>,
     [Call ''MSWEnableDarkMode(DarkMode_Always)'', Call ''InitCommonControls'',
      Call ''wxLog::EnableLogging(true)'', Call ''SetAppName codeblocks''] @
     (if i_clipboard_opened env then [Call ''wxTheClipboard->Flush''] else []) @
     [Call ''parser.SetDesc'', Call ''wxFileSystem::AddHandler wxZipFSHandler'',
      Call ''wxFileSystem::AddHandler wxMemoryFSHandler'',
      Call ''InsertHandler wxToolBarAddOnXmlHandler'',
      Call ''InsertHandler wxScrollingDialogXmlHandler'', Call ''wxInitAllImageHandlers'',
      Call ''InitAllHandlers'', Call ''Manager::SetToolbarHandler'', Log ''Starting''])"

subsection \<open>Talking to a running instance (lines 685-706)\<close>

text \<open>The effects of the branch taken when the connection was made.\<close>

definition forward_to_instance :: "init_env \<Rightarrow> event list" where
  "forward_to_instance env =
    (let cmdLine = join_args (i_argv env)
     in (if cmdLine \<noteq> [] then [Execute (CmdLine_message cmdLine (i_GetCwd env))] else []) @
        (if i_raise_via_ipc env then [Execute ''[Raise]''] else []) @
        [Disconnect, DeleteConnection, DeleteClient,
         Log ''Ending application because another instance has been detected!''])"

subsection \<open>The try block when nothing throws\<close>

text \<open>
  The block is written in three parts, each taking the state and the effects so far and
  giving the value returned by \<^verbatim>\<open>OnInit\<close>, the state and the effects. The member functions
  \<^verbatim>\<open>InitExceptionHandler\<close>, \<^verbatim>\<open>InitLocale\<close>, \<^verbatim>\<open>InitDebugConsole\<close>, \<^verbatim>\<open>InitFrame\<close>, \<^verbatim>\<open>CheckVersion\<close>
  and \<^verbatim>\<open>InitAssociations\<close> appear as calls; \<^verbatim>\<open>InitXRCStuff\<close> is the load of the resources
  and the message box when that fails. The local \<^verbatim>\<open>wxLogNull\<close> of the connection block is
  recorded where it is made and where its scope ends normally; what the destructors of
  locals do when the block is left by \<^verbatim>\<open>return\<close> or by an exception is added by \<open>unwind\<close>
  below.
\<close>

text \<open>Lines 732-847: after the instance checks.\<close>

definition OnInit_startup :: "init_env \<Rightarrow> app \<Rightarrow> event list \<Rightarrow> bool \<times> app \<times> event list" where
  "OnInit_startup env a ev =
    (let a1 = (if m_DDE a \<and> \<not> m_Batch a then a\<lparr>g_DDEServer := True\<rparr> else a);
         ev1 = ev @
               (if m_DDE a \<and> \<not> m_Batch a then [Call ''new DDEServer'', Call ''g_DDEServer->Create'']
                else []) @
               (if \<not> m_Batch a then [Call ''UserVariableManager::SetUI''] else []) @
               [Call (if \<not> m_Batch a \<and> m_Script a = [] \<and> m_Splash a \<and> i_show_splash env
                      then ''Splash(true)'' else ''Splash(false)''),
                Call ''InitDebugConsole'',
                Call (if m_Batch a \<or> m_Script a \<noteq> [] then ''Manager::SetBatchBuild(true)''
                      else ''Manager::SetBatchBuild(false)''),
                Call ''GetScriptingManager'', Call ''InitFrame'', Log ''Initial scaling factor'',
                Call ''wxMessageOutput::Set wxMessageOutputBest''];
         a2 = a1\<lparr>m_Frame := True\<rparr>;
         parsed = ParseCmdLine (i_parse env) True (i_cmdline env) [] a2;
         a3 = fst (snd parsed);
         ev2 = ev1 @ snd (snd parsed) @
               (if fst parsed = 0 \<and> \<not> i_blank_workspace env
                then [Call ''ProjectManager::LoadWorkspace''] else []) @
               (if m_SafeMode a3 then [Call ''wxLog::EnableLogging(true)''] else [])
     in
       if m_Batch a3 then
         (let a4 = a3\<lparr>s_Loading := False\<rparr>;
              loaded = LoadDelayedFiles (i_frame env) a4
          in (True, fst loaded,
              ev2 @ [Call ''Manager::SetAppStartedUp(true)'',
                     Call ''ProcessEvent cbEVT_APP_STARTUP_DONE'',
                     Call ''RegisterEventSink cbEVT_COMPILER_FINISHED''] @
              snd loaded @ [Call ''CallAfter BatchJob'']))
       else if m_Script a3 \<noteq> [] then
         (True, a3\<lparr>s_Loading := False\<rparr>,
          ev2 @ [Call ''FileManager::Load m_Script''] @
          (if i_script_data env then [Call ''ScriptingManager::LoadBuffer''] else []) @
          [Call ''delete loader'', Call ''frame->Close''])
       else
         (let ev3 = ev2 @ [Call ''CheckVersion''] @
                    (if i_startup_script env \<noteq> [] then
                       Call ''ScriptingManager::LoadScript'' #
                       (if \<not> i_LoadScript env then [Call ''ScriptingManager::DisplayErrors'']
                        else [])
                     else []) @
                    [Call ''Manager::ProcessPendingEvents'', Call ''splash.Hide'',
                     Call ''SetTopWindow(frame)'', Call ''frame->Show'',
                     Call ''frame->StartupDone'', Call ''frame->ShowTips''] @
                    (if the_platform (i_config env) = Windows then [Call ''InitAssociations'']
                     else []);
              a4 = a3\<lparr>s_Loading := False\<rparr>;
              loaded = LoadDelayedFiles (i_frame env) a4;
              attached = AttachDebugger (i_debuggers env) (fst loaded)
          in (True, fst attached,
              ev3 @ snd loaded @ snd attached @
              [Call ''ProjectManager::WorkspaceChanged'', Call ''Manager::SetAppStartedUp(true)'',
               Call ''ProcessEvent cbEVT_APP_STARTUP_DONE''] @
              (if i_crashReportName env \<noteq> [] then [Log ''Setting the crash report file'']
               else []))))"

text \<open>Lines 672-730: the connection to a running instance and the single instance check.\<close>

definition OnInit_instance :: "init_env \<Rightarrow> app \<Rightarrow> event list \<Rightarrow> bool \<times> app \<times> event list" where
  "OnInit_instance env a ev =
    (let ipc = (m_DDE a \<and> \<not> m_Batch a \<and> i_use_ipc env)
     in
       if ipc \<and> i_MakeConnection env then
         (False, a,
          ev @ [Call ''new DDEClient'', Call ''wxLogNull'', Call ''client->MakeConnection''] @
          forward_to_instance env)
       else
         let ev1 = ev @ (if ipc then [Call ''new DDEClient'', Call ''wxLogNull'',
                                      Call ''client->MakeConnection'', DeleteClient,
                                      Call ''~wxLogNull'']
                         else [])
         in
           if i_single_instance env \<and> \<not> Found (i_cmdline env) ''multiple-instance'' then
             (let a1 = a\<lparr>m_pSingleInstance := True\<rparr>;
                  ev2 = ev1 @ [Call ''new wxSingleInstanceChecker'']
              in if i_IsAnotherRunning env then
                   (False, a1, ev2 @ [MessageBox ''Another program instance is already running.''])
                 else OnInit_startup env a1 ev2)
           else OnInit_startup env a ev1)"

text \<open>Lines 642-670, followed by the rest.\<close>

definition OnInit_try :: "init_env \<Rightarrow> app \<Rightarrow> bool \<times> app \<times> event list" where
  "OnInit_try env a =
    (let ev0 = [Call ''wxHandleFatalExceptions(true)'', Call ''InitExceptionHandler'',
                Call ''wxMessageOutput::Set cbMessageOutputNull''];
         parsed = ParseCmdLine (i_parse env) False (i_cmdline env) [] a;
         a1 = fst (snd parsed);
         ev1 = ev0 @ snd (snd parsed)
     in
       if fst parsed = - 1 then
         (False, a1, ev1 @ [Call ''wxMessageOutput::Set wxMessageOutputMessageBox'',
                            Call ''parser.Usage''])
       else
         let ev2 = ev1 @ [Call ''PersonalityManager::MarkAsReady''];
             config = LoadConfig (i_config env) a1;
             ev3 = ev2 @ snd config
         in
           if \<not> fst config then (False, a1, ev3)
           else
             let ev4 = ev3 @ [Call (if m_SafeMode a1 then ''PluginManager::SetSafeMode(true)''
                                    else ''PluginManager::SetSafeMode(false)'')];
                 xrc = (\<not> m_Batch a1 \<and> m_Script a1 = []);
                 ev5 = ev4 @ (if xrc then [Call ''Manager::LoadResource resources.zip''] else [])
             in
               if xrc \<and> \<not> i_LoadResource env then
                 (False, a1, ev5 @ [MessageBox ''Cannot find resources...''])
               else OnInit_instance env a1 (ev5 @ [Call ''InitLocale'']))"

subsection \<open>Leaving the try block\<close>

text \<open>
  Two locals of the block have destructors with an effect: the \<^verbatim>\<open>Splash\<close> object, whose
  destructor destroys the splash window if it was shown and \<^verbatim>\<open>Hide\<close> has not been called,
  and the \<^verbatim>\<open>wxLogNull\<close> of the connection block. \<open>unwind done\<close> is what these destructors
  do when the block is left after the calls \<open>done\<close>, by \<^verbatim>\<open>return\<close> or by an exception.
\<close>

definition unwind :: "event list \<Rightarrow> event list" where
  "unwind done =
     (if Call ''Splash(true)'' \<in> set done \<and> Call ''splash.Hide'' \<notin> set done
      then [Call ''~Splash: m_pSplash->Destroy''] else []) @
     (if Call ''wxLogNull'' \<in> set done \<and> Call ''~wxLogNull'' \<notin> set done
      then [Call ''~wxLogNull''] else [])"

text \<open>
  The outcome of the block: \<open>thrown = Some (j, x)\<close> means that its call with index \<open>j\<close>
  throws \<open>x\<close>. Then the calls before it have happened, the live locals are destroyed and
  the exception leaves the block (\<open>Inl\<close>). Otherwise the block returns (\<open>Inr\<close>).
\<close>

definition try_block ::
  "init_env \<Rightarrow> app \<Rightarrow> (nat \<times> exn) option \<Rightarrow> (exn + bool) \<times> event list" where
  "try_block env a thrown =
    (let body = OnInit_try env a;
         calls = snd (snd body)
     in case thrown of
          None \<Rightarrow> (Inr (fst body), calls @ unwind calls)
        | Some (j, x) \<Rightarrow>
            if j < length calls then (Inl x, take j calls @ unwind (take j calls))
            else (Inr (fst body), calls @ unwind calls))"

text \<open>
  The three \<^verbatim>\<open>catch\<close> clauses and the \<^verbatim>\<open>return false\<close> after them (lines 849-862). The
  calls that report the exception are taken not to throw.
\<close>

fun catch_clauses :: "(exn + bool) \<times> event list \<Rightarrow> (exn + bool) \<times> event list" where
  "catch_clauses (Inl x, ev) = (Inr False, ev @ [report_exception x])"
| "catch_clauses (Inr b, ev) = (Inr b, ev)"

subsection \<open>The function\<close>

text \<open>
  The result is how \<^verbatim>\<open>OnInit\<close> ends, by returning a value (\<open>Inr\<close>) or by an exception that
  leaves it (\<open>Inl\<close>), and the effects. A call that throws before the \<^verbatim>\<open>try\<close> block ends the
  function with that exception; a call that throws inside the block is handled by the
  \<^verbatim>\<open>catch\<close> clauses.
\<close>

definition OnInit :: "init_env \<Rightarrow> app \<Rightarrow> (exn + bool) \<times> event list" where
  "OnInit env a =
    (let pre = OnInit_pre env a;
         n = length (snd pre)
     in case i_throw env of
          None \<Rightarrow>
            (let r = catch_clauses (try_block env (fst pre) None)
             in (fst r, snd pre @ snd r))
        | Some (k, x) \<Rightarrow>
            if k < n then (Inl x, take k (snd pre))
            else (let r = catch_clauses (try_block env (fst pre) (Some (k - n, x)))
                  in (fst r, snd pre @ snd r)))"

text \<open>The member variables at the end of the block when nothing throws.\<close>

definition OnInit_state :: "init_env \<Rightarrow> app \<Rightarrow> app" where
  "OnInit_state env a = fst (snd (OnInit_try env (fst (OnInit_pre env a))))"

subsection \<open>Concrete states for evaluation\<close>

text \<open>
  The member variables as \<^verbatim>\<open>OnInit\<close> assigns them before the first command line pass;
  strings are default-constructed (empty). The flags that only \<^verbatim>\<open>ParseCmdLine\<close> assigns
  are given the value they get from an empty command line.
\<close>

definition fresh_app :: app where
  "fresh_app =
     \<lparr>m_Prefix = [], m_UserDataDir = [], m_DDE = True, m_Assocs = True, m_SafeMode = False,
      m_Splash = True,
      m_HasDebugLog = False, m_CrashHandler = True, m_BatchNotify = False,
      m_BatchWindowAutoClose = True, m_Build = False, m_ReBuild = False, m_Clean = False,
      m_BatchTarget = [], m_Script = [], m_Batch = False, m_HasProject = False,
      m_HasWorkSpace = False, m_AutoFile = [], m_DelayedFilesToOpen = [],
      m_DebuggerAttach = [], m_DebuggerConfig = [], m_BatchExitCode = 0,
      m_pBatchBuildDialog = False, m_pSingleInstance = False, m_Frame = False,
      one_time_only = False, s_Loading = True, g_DDEServer = False\<rparr>"

definition gdb_plugin :: debugger_plugin where
  "gdb_plugin =
     \<lparr>SettingsName = ''gdb_debugger'', GUIName = ''GDB/CDB debugger'',
      Configurations = [''Default'', ''Remote'']\<rparr>"

text \<open>A frame that opens every file and has an editor for it; paths are already normal.\<close>

definition fe0 :: frame_env where
  "fe0 = \<lparr>frame_Open = (\<lambda>p h. True), GetEditor = (\<lambda>p. True), Normalize = (\<lambda>p. p)\<rparr>"


text \<open>A file system in which every file exists, and a command line with a build switch.\<close>

definition pe0 :: parse_env where
  "pe0 =
     \<lparr>FileTypeOf = (\<lambda>s. if s = ''app.cbp'' then ftCodeBlocksProject
                         else if s = ''all.workspace'' then ftCodeBlocksWorkspace
                         else ftOtherKind),
      NormalizeCwd = (\<lambda>cwd p. cwd @ ''/'' @ p),
      IsRelative = (\<lambda>p. True),
      MakeAbsolute = (\<lambda>cwd p. cwd @ ''/'' @ p),
      FileExists = (\<lambda>p. True)\<rparr>"

definition cl_build :: cmdline where
  "cl_build =
     \<lparr>parse_res = 0, switches = [''build''], options = [],
      params = [''main.cpp'', ''app.cbp'', ''all.workspace'', ''late.cpp'']\<rparr>"

text \<open>The state when a batch build of a project starts.\<close>

definition batch_app :: app where
  "batch_app = fresh_app\<lparr>m_Batch := True, m_Build := True, m_HasProject := True\<rparr>"

text \<open>An MSW installation; paths with a drive letter are absolute.\<close>

definition ce0 :: config_env where
  "ce0 =
     \<lparr>the_platform = Windows, APP_PREFIX = [], module_dir = ''C:/CodeBlocks'',
      executable_dir = [], ResourcesDir = [], SetUserDataFolder = (\<lambda>d. d = ''C:/cbdata''),
      CODEBLOCKS_DATA_DIR = Some ''D:/env'',
      fn_IsRelative = (\<lambda>p. \<not> prefix ''C:/'' p \<and> \<not> prefix ''D:/'' p),
      fn_MakeAbsolute = (\<lambda>p. ''C:/cwd/'' @ p), fn_GetFullPath = (\<lambda>p. p)\<rparr>"

text \<open>The directory \<^verbatim>\<open>C:\src\(old)\<close>.\<close>

definition cwd_bad :: string where
  "cwd_bad = ''C:'' @ [bsl] @ ''src'' @ [bsl] @ ''(old)''"

text \<open>
  A start without arguments while another instance is running and accepts the connection;
  nothing throws.
\<close>

definition env0 :: init_env where
  "env0 =
     \<lparr>i_argv = [],
      i_cmdline = \<lparr>parse_res = 0, switches = [], options = [], params = []\<rparr>,
      i_parse = pe0, i_config = ce0, i_frame = fe0, i_debuggers = [gdb_plugin],
      i_clipboard_opened = False, i_LoadResource = True, i_use_ipc = True,
      i_raise_via_ipc = True, i_single_instance = True, i_show_splash = True,
      i_blank_workspace = True, i_MakeConnection = True, i_GetCwd = ''C:/work'',
      i_IsAnotherRunning = False, i_script_data = False, i_startup_script = [],
      i_LoadScript = True, i_crashReportName = [], i_throw = None\<rparr>"

text \<open>A start with \<^verbatim>\<open>--build main.cpp\<close>, no other instance running.\<close>

definition env_build :: init_env where
  "env_build =
     env0\<lparr>i_argv := [''--build'', ''main.cpp''],
          i_cmdline := \<lparr>parse_res = 0, switches = [''build''], options = [],
                        params = [''main.cpp'']\<rparr>,
          i_MakeConnection := False\<rparr>"

section \<open>Properties\<close>

subsection \<open>Searching lists\<close>

lemma first_index_None_iff: "first_index P xs = None \<longleftrightarrow> (\<forall>x\<in>set xs. \<not> P x)"
  by (induction xs) auto

lemma first_index_eq_mem: "first_index (\<lambda>c. c = v) xs = Some i \<Longrightarrow> v \<in> set xs"
  by (induction xs arbitrary: i) (auto split: if_splits)

lemma find_Some_mem: "find P xs = Some x \<Longrightarrow> x \<in> set xs \<and> P x"
  by (induction xs) (auto split: if_splits)


lemma find_char_None_iff: "find_char c s = None \<longleftrightarrow> c \<notin> set s"
  by (induction s) auto

subsection \<open>Attaching the debugger\<close>

text \<open>
  Claim C3. \<^verbatim>\<open>AttachDebugger\<close> splits the \<^verbatim>\<open>--dbg-config\<close> value at its first colon into
  a plugin name and a configuration name. It attaches (SetActiveConfig, then
  AttachToProcess with the \<^verbatim>\<open>--dbg-attach\<close> string, as its last two effects) exactly when
  both strings are non-empty, the colon exists at a position greater than zero, the first
  loaded plugin with that settings name exists and one of its configurations has the
  configuration name; the index passed is that of the first such configuration. In every
  other case in which at least one of the two options was given it logs an error, and it
  never attaches then. The function is total: it always returns.
\<close>

theorem AttachDebugger_outcome:
  fixes debuggers :: "debugger_plugin list" and a :: app
  defines "att \<equiv> m_DebuggerAttach a" and "cfg \<equiv> m_DebuggerConfig a"
  defines "evs \<equiv> snd (AttachDebugger debuggers a)"
  defines "ok \<equiv> att \<noteq> [] \<and> cfg \<noteq> [] \<and>
     (\<exists>pos p. find_char CHR '':'' cfg = Some pos \<and> 0 < pos \<and>
        find (\<lambda>q. SettingsName q = take pos cfg) debuggers = Some p \<and>
        drop (Suc pos) cfg \<in> set (Configurations p))"
  shows "(list_ex is_attach evs \<longleftrightarrow> ok) \<and>
     (ok \<longrightarrow> (\<exists>pos p idx pre.
         find_char CHR '':'' cfg = Some pos \<and>
         find (\<lambda>q. SettingsName q = take pos cfg) debuggers = Some p \<and>
         first_index (\<lambda>c. c = drop (Suc pos) cfg) (Configurations p) = Some idx \<and>
         evs = pre @ [SetActiveConfig (SettingsName p) idx,
                      AttachToProcess (SettingsName p) att] \<and>
         \<not> list_ex is_attach pre \<and> \<not> list_ex is_LogError evs)) \<and>
     (\<not> ok \<and> (att \<noteq> [] \<or> cfg \<noteq> []) \<longrightarrow> list_ex is_LogError evs)"
  unfolding ok_def evs_def att_def cfg_def AttachDebugger_def Let_def
  by (auto simp: first_index_None_iff find_None_iff list_ex_iff msg_need_both_def
           split: option.splits dest: first_index_eq_mem find_Some_mem)

theorem AttachDebugger_outcome_witness:
  "list_ex is_attach
     (snd (AttachDebugger [gdb_plugin]
        (fresh_app\<lparr>m_DebuggerAttach := ''4242'', m_DebuggerConfig := ''gdb_debugger:Remote''\<rparr>))) \<and>
   list_ex is_LogError
     (snd (AttachDebugger [gdb_plugin]
        (fresh_app\<lparr>m_DebuggerAttach := ''4242'', m_DebuggerConfig := ''gdb_debugger''\<rparr>)))"
proof -
  let ?a1 = "fresh_app\<lparr>m_DebuggerAttach := ''4242'', m_DebuggerConfig := ''gdb_debugger:Remote''\<rparr>"
  let ?a2 = "fresh_app\<lparr>m_DebuggerAttach := ''4242'', m_DebuggerConfig := ''gdb_debugger''\<rparr>"
  have pos: "find_char CHR '':'' ''gdb_debugger:Remote'' = Some 12"
    by simp
  have ok: "m_DebuggerAttach ?a1 \<noteq> [] \<and> m_DebuggerConfig ?a1 \<noteq> [] \<and>
     (\<exists>pos p. find_char CHR '':'' (m_DebuggerConfig ?a1) = Some pos \<and> 0 < pos \<and>
        find (\<lambda>q. SettingsName q = take pos (m_DebuggerConfig ?a1)) [gdb_plugin] = Some p \<and>
        drop (Suc pos) (m_DebuggerConfig ?a1) \<in> set (Configurations p))"
    using pos by (simp add: gdb_plugin_def fresh_app_def)
  have nodelim: "find_char CHR '':'' ''gdb_debugger'' = None"
    by simp
  have bad: "\<not> (m_DebuggerAttach ?a2 \<noteq> [] \<and> m_DebuggerConfig ?a2 \<noteq> [] \<and>
     (\<exists>pos p. find_char CHR '':'' (m_DebuggerConfig ?a2) = Some pos \<and> 0 < pos \<and>
        find (\<lambda>q. SettingsName q = take pos (m_DebuggerConfig ?a2)) [gdb_plugin] = Some p \<and>
        drop (Suc pos) (m_DebuggerConfig ?a2) \<in> set (Configurations p))) \<and>
     (m_DebuggerAttach ?a2 \<noteq> [] \<or> m_DebuggerConfig ?a2 \<noteq> [])"
    using nodelim by (simp add: fresh_app_def)
  from AttachDebugger_outcome [of "[gdb_plugin]" ?a1] ok
  have "list_ex is_attach (snd (AttachDebugger [gdb_plugin] ?a1))"
    by blast
  moreover from AttachDebugger_outcome [of "[gdb_plugin]" ?a2] bad
  have "list_ex is_LogError (snd (AttachDebugger [gdb_plugin] ?a2))"
    by blast
  ultimately show ?thesis by simp
qed

subsection \<open>Opening the delayed files\<close>

lemma count_list_distinct: "distinct xs \<Longrightarrow> count_list xs p = (if p \<in> set xs then 1 else 0)"
  by (induction xs) auto

lemma count_list_queue_opens:
  "count_list (map (\<lambda>f. OpenFile f True) xs) (OpenFile p True) = count_list xs p"
  by (induction xs) auto

lemma count_unique_queue:
  "count_list (map (\<lambda>f. OpenFile f True) (sort (remdups q))) (OpenFile p True) =
     (if p \<in> set q then 1 else 0)"
  by (simp add: count_list_queue_opens count_list_distinct)

text \<open>
  Claim C9, as stated, fails: a path that is in the queue and is also the \<^verbatim>\<open>--file\<close> value
  is passed to \<^verbatim>\<open>frame->Open\<close> twice in one call, once from the queue and once for
  \<^verbatim>\<open>--file\<close>.
\<close>

theorem LoadDelayedFiles_dedup_counterexample:
  "snd (LoadDelayedFiles fe0
          (fresh_app\<lparr>m_DelayedFilesToOpen := [''/w/a.cpp''], m_AutoFile := ''/w/a.cpp''\<rparr>)) =
     [OpenFile ''/w/a.cpp'' True, OpenFile ''/w/a.cpp'' False]"
  by code_simp

text \<open>
  Claim C9, amended. \<^verbatim>\<open>LoadDelayedFiles\<close> opens the delayed-open queue through a set: every
  path in the queue is passed to \<^verbatim>\<open>frame->Open(path, true)\<close> exactly once in a call, however
  often it was queued, and no other path is opened that way; the \<^verbatim>\<open>--file\<close> path is opened
  by a separate call \<^verbatim>\<open>frame->Open(path, false)\<close>. When the function returns, the queue is
  empty and the \<^verbatim>\<open>--file\<close> string is empty, whatever the state was before.
\<close>

theorem LoadDelayedFiles_dedup_and_clear:
  "(\<forall>p. count_list (snd (LoadDelayedFiles fe a)) (OpenFile p True) =
          (if p \<in> set (m_DelayedFilesToOpen a) then 1 else 0)) \<and>
   m_DelayedFilesToOpen (fst (LoadDelayedFiles fe a)) = [] \<and>
   m_AutoFile (fst (LoadDelayedFiles fe a)) = []"
  by (simp add: LoadDelayedFiles_def Let_def count_unique_queue)

theorem LoadDelayedFiles_dedup_and_clear_witness:
  "count_list (snd (LoadDelayedFiles fe0
       (fresh_app\<lparr>m_DelayedFilesToOpen := [''b.cpp'', ''a.cpp'', ''b.cpp'']\<rparr>)))
     (OpenFile ''b.cpp'' True) = 1"
  using LoadDelayedFiles_dedup_and_clear
          [of fe0 "fresh_app\<lparr>m_DelayedFilesToOpen := [''b.cpp'', ''a.cpp'', ''b.cpp'']\<rparr>"]
  by simp

subsection \<open>The argument of --file\<close>


lemma ToLong_no_number: "strtol s = None \<Longrightarrow> ToLong s d = (False, d)"
  by (simp add: ToLong_def)




subsection \<open>The positional parameters and the batch flag\<close>

lemma scan_params_flags [simp]:
  "m_Build (scan_params pe cwd ps a) = m_Build a"
  "m_ReBuild (scan_params pe cwd ps a) = m_ReBuild a"
  "m_Clean (scan_params pe cwd ps a) = m_Clean a"
  by (induction ps arbitrary: a) (simp_all add: Let_def)

lemma scan_params_no_workspace:
  assumes "\<forall>p\<in>set ps. FileTypeOf pe p \<noteq> ftCodeBlocksWorkspace"
  shows "m_DelayedFilesToOpen (scan_params pe cwd ps a) =
           m_DelayedFilesToOpen a @
           map (NormalizeCwd pe cwd)
             (filter (\<lambda>p. FileTypeOf pe p = ftCodeBlocksProject \<or>
                          FileExists pe (NormalizeCwd pe cwd p)) ps)"
    and "m_HasWorkSpace (scan_params pe cwd ps a) = m_HasWorkSpace a"
    and "m_HasProject (scan_params pe cwd ps a) =
           (m_HasProject a \<or> (\<exists>p\<in>set ps. FileTypeOf pe p = ftCodeBlocksProject))"
  using assms by (induction ps arbitrary: a) (auto simp: Let_def)

lemma scan_params_workspace:
  assumes "first_index (\<lambda>p. FileTypeOf pe p = ftCodeBlocksWorkspace) ps = Some i"
  shows "m_DelayedFilesToOpen (scan_params pe cwd ps a) = [NormalizeCwd pe cwd (ps ! i)]"
    and "m_HasWorkSpace (scan_params pe cwd ps a)"
    and "scan_params pe cwd ps a = scan_params pe cwd (take (Suc i) ps) a"
  using assms
proof (induction ps arbitrary: a i)
  case Nil
  { case 1 then show ?case by simp }
  { case 2 then show ?case by simp }
  { case 3 then show ?case by simp }
next
  case (Cons p ps)
  { case 1 then show ?case using Cons.IH(1) by (auto simp: Let_def split: if_splits) }
  { case 2 then show ?case using Cons.IH(2) by (auto simp: Let_def split: if_splits) }
  { case 3 then show ?case using Cons.IH(3) by (auto simp: Let_def split: if_splits) }
qed

lemma scan_params_has_any:
  "(m_HasProject (scan_params pe cwd ps a) \<or> m_HasWorkSpace (scan_params pe cwd ps a)) =
   (m_HasProject a \<or> m_HasWorkSpace a \<or>
    (\<exists>p\<in>set ps. FileTypeOf pe p = ftCodeBlocksProject \<or> FileTypeOf pe p = ftCodeBlocksWorkspace))"
  by (induction ps arbitrary: a) (auto simp: Let_def)


text \<open>
  Claim C8. In \<^verbatim>\<open>ParseCmdLine\<close> with a handler frame (and a command line that does not ask
  for help): if some positional parameter is a workspace file, then afterwards the
  delayed-open queue holds exactly the normalized full path of the first such parameter,
  the has-workspace flag is set, and the parameters after it are ignored (the call gives
  the same result as on the command line cut after the workspace). So nothing queued
  before, and no file listed before the workspace, stays in the queue with it. If no
  parameter is a workspace, the flag is clear and the queue is extended by the projects
  and the existing files, in order.
\<close>

theorem ParseCmdLine_workspace:
  fixes pe :: parse_env and cl :: cmdline and cwd :: string and a :: app
  defines "a' \<equiv> fst (snd (ParseCmdLine pe True cl cwd a))"
  defines "ws \<equiv> first_index (\<lambda>p. FileTypeOf pe p = ftCodeBlocksWorkspace) (params cl)"
  assumes parsed: "parse_res cl \<noteq> - 1"
  shows
    "(\<forall>i. ws = Some i \<longrightarrow>
        m_DelayedFilesToOpen a' = [NormalizeCwd pe cwd (params cl ! i)] \<and>
        m_HasWorkSpace a' \<and>
        ParseCmdLine pe True cl cwd a =
          ParseCmdLine pe True (cl\<lparr>params := take (Suc i) (params cl)\<rparr>) cwd a) \<and>
     (ws = None \<longrightarrow>
        \<not> m_HasWorkSpace a' \<and>
        m_DelayedFilesToOpen a' =
          m_DelayedFilesToOpen a @
          map (NormalizeCwd pe cwd)
            (filter (\<lambda>p. FileTypeOf pe p = ftCodeBlocksProject \<or>
                         FileExists pe (NormalizeCwd pe cwd p)) (params cl)))"
proof (intro conjI allI impI)
  fix i
  assume w: "ws = Some i"
  then have fi: "first_index (\<lambda>p. FileTypeOf pe p = ftCodeBlocksWorkspace) (params cl) = Some i"
    by (simp add: ws_def)
  from scan_params_workspace(1) [OF fi] parsed
  show "m_DelayedFilesToOpen a' = [NormalizeCwd pe cwd (params cl ! i)]"
    by (simp add: a'_def ParseCmdLine_def Let_def)
  from scan_params_workspace(2) [OF fi] parsed
  show "m_HasWorkSpace a'"
    by (simp add: a'_def ParseCmdLine_def Let_def)
  from fi have "params cl \<noteq> []" by auto
  with scan_params_workspace(3) [OF fi] parsed
  show "ParseCmdLine pe True cl cwd a =
          ParseCmdLine pe True (cl\<lparr>params := take (Suc i) (params cl)\<rparr>) cwd a"
    by (simp add: ParseCmdLine_def Let_def FoundValue_def)
next
  assume "ws = None"
  then have nw: "\<forall>p\<in>set (params cl). FileTypeOf pe p \<noteq> ftCodeBlocksWorkspace"
    by (simp add: ws_def first_index_None_iff)
  from scan_params_no_workspace(2) [OF nw] parsed
  show "\<not> m_HasWorkSpace a'"
    by (simp add: a'_def ParseCmdLine_def Let_def)
  from scan_params_no_workspace(1) [OF nw] parsed
  show "m_DelayedFilesToOpen a' =
          m_DelayedFilesToOpen a @
          map (NormalizeCwd pe cwd)
            (filter (\<lambda>p. FileTypeOf pe p = ftCodeBlocksProject \<or>
                         FileExists pe (NormalizeCwd pe cwd p)) (params cl))"
    by (simp add: a'_def ParseCmdLine_def Let_def)
qed

theorem ParseCmdLine_workspace_witness:
  "m_DelayedFilesToOpen (fst (snd (ParseCmdLine pe0 True cl_build ''/w''
       (fresh_app\<lparr>m_DelayedFilesToOpen := [''/w/old.cpp'']\<rparr>)))) = [''/w/all.workspace''] \<and>
   m_DelayedFilesToOpen (fst (snd (ParseCmdLine pe0 True
       (cl_build\<lparr>params := [''main.cpp'', ''app.cbp'']\<rparr>) ''/w''
       (fresh_app\<lparr>m_DelayedFilesToOpen := [''/w/old.cpp'']\<rparr>)))) =
     [''/w/old.cpp'', ''/w/main.cpp'', ''/w/app.cbp'']"
proof -
  let ?a = "fresh_app\<lparr>m_DelayedFilesToOpen := [''/w/old.cpp'']\<rparr>"
  let ?cl2 = "cl_build\<lparr>params := [''main.cpp'', ''app.cbp'']\<rparr>"
  have p1: "parse_res cl_build \<noteq> - 1" and p2: "parse_res ?cl2 \<noteq> - 1"
    by (simp_all add: cl_build_def)
  have w1: "first_index (\<lambda>p. FileTypeOf pe0 p = ftCodeBlocksWorkspace) (params cl_build) = Some 2"
    by (simp add: cl_build_def pe0_def)
  have w2: "first_index (\<lambda>p. FileTypeOf pe0 p = ftCodeBlocksWorkspace) (params ?cl2) = None"
    by (simp add: cl_build_def pe0_def)
  from ParseCmdLine_workspace [OF p1, where pe = pe0 and cwd = "''/w''" and a = ?a] w1
  have "m_DelayedFilesToOpen (fst (snd (ParseCmdLine pe0 True cl_build ''/w'' ?a))) =
          [NormalizeCwd pe0 ''/w'' (params cl_build ! 2)]"
    by blast
  then have "m_DelayedFilesToOpen (fst (snd (ParseCmdLine pe0 True cl_build ''/w'' ?a))) =
          [''/w/all.workspace'']"
    by (simp add: cl_build_def pe0_def)
  moreover from ParseCmdLine_workspace [OF p2, where pe = pe0 and cwd = "''/w''" and a = ?a] w2
  have "m_DelayedFilesToOpen (fst (snd (ParseCmdLine pe0 True ?cl2 ''/w'' ?a))) =
          m_DelayedFilesToOpen ?a @
          map (NormalizeCwd pe0 ''/w'')
            (filter (\<lambda>p. FileTypeOf pe0 p = ftCodeBlocksProject \<or>
                         FileExists pe0 (NormalizeCwd pe0 ''/w'' p)) (params ?cl2))"
    by blast
  then have "m_DelayedFilesToOpen (fst (snd (ParseCmdLine pe0 True ?cl2 ''/w'' ?a))) =
          [''/w/old.cpp'', ''/w/main.cpp'', ''/w/app.cbp'']"
    by (simp add: cl_build_def pe0_def)
  ultimately show ?thesis by simp
qed

subsection \<open>The exit status of a batch build\<close>

lemma OnBatchBuildDone_first:
  "m_Batch a \<Longrightarrow> \<not> one_time_only a \<Longrightarrow>
   m_BatchExitCode (fst (OnBatchBuildDone code a)) = code \<and>
   one_time_only (fst (OnBatchBuildDone code a)) \<and> m_Batch (fst (OnBatchBuildDone code a))"
  by (simp add: OnBatchBuildDone_def Let_def)

lemma OnBatchBuildDone_later: "one_time_only a \<Longrightarrow> fst (OnBatchBuildDone code a) = a"
  by (simp add: OnBatchBuildDone_def)

lemma deliver_later: "one_time_only a \<Longrightarrow> fst (deliver codes a) = a"
  by (induction codes arbitrary: a) (simp_all add: OnBatchBuildDone_later split_beta)

lemma deliver_first:
  assumes "m_Batch a" and "\<not> one_time_only a"
  shows "m_BatchExitCode (fst (deliver (code # codes) a)) = code"
    and "m_Batch (fst (deliver (code # codes) a))"
proof -
  let ?a1 = "fst (OnBatchBuildDone code a)"
  from OnBatchBuildDone_first [OF assms]
  have c: "m_BatchExitCode ?a1 = code" and o: "one_time_only ?a1" and b: "m_Batch ?a1"
    by simp_all
  have "fst (deliver (code # codes) a) = fst (deliver codes ?a1)"
    by (simp add: split_beta)
  also have "\<dots> = ?a1" using o by (rule deliver_later)
  finally have eq: "fst (deliver (code # codes) a) = ?a1" .
  show "m_BatchExitCode (fst (deliver (code # codes) a)) = code" using eq c by simp
  show "m_Batch (fst (deliver (code # codes) a))" using eq b by simp
qed

lemma deliver_no_batch: "\<not> m_Batch a \<Longrightarrow> fst (deliver codes a) = a"
  by (induction codes arbitrary: a) (simp_all add: OnBatchBuildDone_def split_beta)

text \<open>
  Claim C5, as stated, fails: in batch mode, when the toolkit's event loop ends with an
  exception, \<^verbatim>\<open>OnRun\<close> returns -1 although the batch exit code is 0.
\<close>

theorem batch_exit_status_counterexample:
  "m_Batch batch_app \<and>
   fst (OnRun [0] (Inl OtherException) batch_app) = - 1 \<and>
   m_BatchExitCode (fst (snd (OnRun [0] (Inl OtherException) batch_app))) = 0"
  by (simp add: batch_app_def fresh_app_def OnRun_def OnBatchBuildDone_def Let_def)

text \<open>
  Claim C5, amended. In batch mode the first \<^verbatim>\<open>cbEVT_COMPILER_FINISHED\<close> event sets the
  batch exit code from the compiler plugin's exit code and later ones do not change it;
  \<^verbatim>\<open>OnExit\<close> returns the batch exit code, and so does \<^verbatim>\<open>OnRun\<close> when the toolkit's event
  loop returns. When the loop ends with an exception \<^verbatim>\<open>OnRun\<close> returns -1. Outside batch
  mode \<^verbatim>\<open>OnExit\<close> returns 0.
\<close>

theorem batch_exit_status:
  "(m_Batch a \<and> \<not> one_time_only a \<longrightarrow>
      fst (OnRun (code # codes) (Inr retval) a) = code \<and>
      fst (OnExit cb (fst (snd (OnRun (code # codes) (Inr retval) a)))) = code) \<and>
   (m_Batch a \<longrightarrow>
      fst (OnRun [] (Inr retval) a) = m_BatchExitCode a \<and>
      fst (OnExit cb a) = m_BatchExitCode a) \<and>
   (\<not> m_Batch a \<longrightarrow> fst (OnExit cb a) = 0) \<and>
   fst (OnRun codes (Inl e) a) = - 1"
proof (intro conjI impI)
  assume h: "m_Batch a \<and> \<not> one_time_only a"
  then have c: "m_BatchExitCode (fst (deliver (code # codes) a)) = code"
    and b: "m_Batch (fst (deliver (code # codes) a))"
    by (simp_all add: deliver_first del: deliver.simps)
  from c b show "fst (OnRun (code # codes) (Inr retval) a) = code"
    by (simp add: OnRun_def split_beta del: deliver.simps)
  from c b show "fst (OnExit cb (fst (snd (OnRun (code # codes) (Inr retval) a)))) = code"
    by (simp add: OnRun_def OnExit_def split_beta del: deliver.simps)
next
  assume "m_Batch a"
  then show "fst (OnRun [] (Inr retval) a) = m_BatchExitCode a"
    by (simp add: OnRun_def)
next
  assume "m_Batch a"
  then show "fst (OnExit cb a) = m_BatchExitCode a"
    by (simp add: OnExit_def)
next
  assume "\<not> m_Batch a"
  then show "fst (OnExit cb a) = 0"
    by (simp add: OnExit_def)
next
  show "fst (OnRun codes (Inl e) a) = - 1"
    by (simp add: OnRun_def split_beta)
qed

theorem batch_exit_status_witness:
  "fst (OnRun [3, 0] (Inr 0) batch_app) = 3 \<and>
   fst (OnExit False (fst (snd (OnRun [3, 0] (Inr 0) batch_app)))) = 3 \<and>
   fst (OnExit False fresh_app) = 0"
proof -
  have b: "m_Batch batch_app \<and> \<not> one_time_only batch_app"
    by (simp add: batch_app_def fresh_app_def)
  have n: "\<not> m_Batch fresh_app"
    by (simp add: fresh_app_def)
  from batch_exit_status [of batch_app 3 "[0]" 0 False] b
  have "fst (OnRun [3, 0] (Inr 0) batch_app) = 3 \<and>
        fst (OnExit False (fst (snd (OnRun [3, 0] (Inr 0) batch_app)))) = 3"
    by blast
  moreover from batch_exit_status [of fresh_app 0 "[]" 0 False] n
  have "fst (OnExit False fresh_app) = 0"
    by blast
  ultimately show ?thesis by simp
qed

subsection \<open>The data directory\<close>

text \<open>
  Claim C6, as stated, fails: when \<^verbatim>\<open>--user-data-dir\<close> was given and the user data folder
  cannot be set, \<^verbatim>\<open>LoadConfig\<close> returns false at once; nothing is written to
  \<^verbatim>\<open>data_path\<close>, although \<^verbatim>\<open>--prefix\<close> was given.
\<close>

theorem LoadConfig_data_path_counterexample:
  "LoadConfig ce0 (fresh_app\<lparr>m_UserDataDir := ''Z:/none'', m_Prefix := ''C:/opt''\<rparr>) =
     (False, [Call ''ConfigManager::SetUserDataFolder Z:/none''])"
  by (simp add: LoadConfig_def ce0_def fresh_app_def)

text \<open>
  Claim C6, amended. Unless \<^verbatim>\<open>--user-data-dir\<close> was given and could not be set,
  \<^verbatim>\<open>LoadConfig\<close> returns true and its last effect, and only write to the configuration, is
  the write of \<^verbatim>\<open>data_path\<close>: the base followed by \<^verbatim>\<open>/share/codeblocks\<close>, made absolute if
  relative, where the base is the value of \<^verbatim>\<open>--prefix\<close> if that is not empty, otherwise
  the value of \<^verbatim>\<open>CODEBLOCKS_DATA_DIR\<close> if that is not empty, otherwise the platform's base.
\<close>

theorem LoadConfig_data_path:
  fixes ce :: config_env and a :: app
  defines "env \<equiv> (case CODEBLOCKS_DATA_DIR ce of None \<Rightarrow> [] | Some v \<Rightarrow> v)"
  defines "base \<equiv> (if m_Prefix a \<noteq> [] then m_Prefix a
                    else if env \<noteq> [] then env else platform_base ce a)"
  assumes "m_UserDataDir a = [] \<or> SetUserDataFolder ce (m_UserDataDir a)"
  shows "fst (LoadConfig ce a) \<and>
         (\<exists>ev0. snd (LoadConfig ce a) =
            ev0 @ [ConfigWrite ''data_path'' (absolute_path ce (base @ ''/share/codeblocks''))] \<and>
            \<not> list_ex is_ConfigWrite ev0)"
  using assms by (auto simp: LoadConfig_def Let_def)

theorem LoadConfig_data_path_witness:
  "last (snd (LoadConfig ce0 (fresh_app\<lparr>m_Prefix := ''opt''\<rparr>))) =
     ConfigWrite ''data_path'' ''C:/cwd/opt/share/codeblocks'' \<and>
   last (snd (LoadConfig ce0 fresh_app)) = ConfigWrite ''data_path'' ''D:/env/share/codeblocks'' \<and>
   last (snd (LoadConfig (ce0\<lparr>CODEBLOCKS_DATA_DIR := None\<rparr>)
                (fresh_app\<lparr>m_UserDataDir := ''C:/cbdata''\<rparr>))) =
     ConfigWrite ''data_path'' ''C:/CodeBlocks/share/codeblocks''"
proof -
  let ?a1 = "fresh_app\<lparr>m_Prefix := ''opt''\<rparr>"
  let ?ce3 = "ce0\<lparr>CODEBLOCKS_DATA_DIR := None\<rparr>"
  let ?a3 = "fresh_app\<lparr>m_UserDataDir := ''C:/cbdata''\<rparr>"
  have u1: "m_UserDataDir ?a1 = [] \<or> SetUserDataFolder ce0 (m_UserDataDir ?a1)"
    and u2: "m_UserDataDir fresh_app = [] \<or> SetUserDataFolder ce0 (m_UserDataDir fresh_app)"
    and u3: "m_UserDataDir ?a3 = [] \<or> SetUserDataFolder ?ce3 (m_UserDataDir ?a3)"
    by (simp_all add: fresh_app_def ce0_def)
  from LoadConfig_data_path [OF u1]
  have "last (snd (LoadConfig ce0 ?a1)) =
          ConfigWrite ''data_path'' (absolute_path ce0 (''opt'' @ ''/share/codeblocks''))"
    by auto
  then have "last (snd (LoadConfig ce0 ?a1)) =
          ConfigWrite ''data_path'' ''C:/cwd/opt/share/codeblocks''"
    by (simp add: ce0_def absolute_path_def)
  moreover from LoadConfig_data_path [OF u2]
  have "last (snd (LoadConfig ce0 fresh_app)) =
          ConfigWrite ''data_path'' (absolute_path ce0 (''D:/env'' @ ''/share/codeblocks''))"
    by (auto simp: ce0_def fresh_app_def)
  then have "last (snd (LoadConfig ce0 fresh_app)) =
          ConfigWrite ''data_path'' ''D:/env/share/codeblocks''"
    by (simp add: ce0_def absolute_path_def)
  moreover from LoadConfig_data_path [OF u3]
  have "last (snd (LoadConfig ?ce3 ?a3)) =
          ConfigWrite ''data_path'' (absolute_path ?ce3 (platform_base ?ce3 ?a3 @ ''/share/codeblocks''))"
    by (auto simp: ce0_def fresh_app_def)
  then have "last (snd (LoadConfig ?ce3 ?a3)) =
          ConfigWrite ''data_path'' ''C:/CodeBlocks/share/codeblocks''"
    by (simp add: ce0_def absolute_path_def platform_base_def GetAppPath_def)
  ultimately show ?thesis by simp
qed

subsection \<open>Forwarding the command line to the running instance\<close>

lemma Replace_single:
  "Replace [c] new s = concat (map (\<lambda>x. if x = c then new else [x]) s)"
  by (induction s) auto

lemma escape_parens_concat: "escape_parens s = concat (map esc_char s)"
proof -
  have "concat (map (\<lambda>x. if x = CHR '')'' then [bsl, CHR '')''] else [x])
          (concat (map (\<lambda>x. if x = CHR ''('' then [bsl, CHR ''(''] else [x]) s))) =
        concat (map esc_char s)"
    by (induction s) (auto simp: esc_char_def bsl_def)
  then show ?thesis
    by (simp add: escape_parens_def Replace_single)
qed

lemma esc_no_close [simp]: "\<not> prefix [CHR '')''] (concat (map esc_char s))"
  by (cases s) (auto simp: esc_char_def bsl_def)

lemma mid_no_open [simp]: "\<not> prefix [CHR ''(''] (concat (map mid_char s))"
  by (cases s) (auto simp: mid_char_def bsl_def)

lemma unescape_close:
  "Replace [bsl, CHR '')''] '')'' (concat (map esc_char s)) = concat (map mid_char s)"
proof (induction s)
  case Nil
  show ?case by simp
next
  case (Cons x s)
  then show ?case
    by (auto simp: esc_char_def [of x] mid_char_def [of x] bsl_def)
qed

lemma unescape_open:
  "Replace [bsl, CHR ''(''] ''('' (concat (map mid_char s)) = s"
proof (induction s)
  case Nil
  show ?case by simp
next
  case (Cons x s)
  then show ?case
    by (auto simp: mid_char_def [of x] bsl_def)
qed

lemma unescape_escape: "unescape_parens (escape_parens s) = s"
  by (simp add: unescape_parens_def escape_parens_concat unescape_close unescape_open)


lemma esc_marker_no_close [simp]:
  "\<not> prefix (CHR '')'' # p) (concat (map esc_char s) @ CHR ''}'' # r)"
  by (cases s) (auto simp: esc_char_def bsl_def)

lemma find_marker_escaped:
  "find_str ''})CWD({'' (concat (map esc_char s) @ ''})CWD({'' @ rest) =
     Some (length (concat (map esc_char s)))"
proof (induction s)
  case Nil
  show ?case by simp
next
  case (Cons x s)
  then show ?case
    by (auto simp: esc_char_def [of x] bsl_def)
qed

lemma find_marker_message:
  "find_str ''})CWD({'' (CmdLine_message s w) = Some (10 + length (escape_parens s))"
  using find_marker_escaped [of s "w @ ''})]''"]
  by (simp add: CmdLine_message_def escape_parens_concat)

text \<open>The command line itself survives the round trip, for every command line and every
  working directory.\<close>

lemma CmdLine_roundtrip_cmdLine: "fst (CmdLine_payloads (CmdLine_message s w)) = s"
proof -
  have "substr (CmdLine_message s w) 10 (length (escape_parens s)) = escape_parens s"
    by (simp add: substr_def CmdLine_message_def)
  then show ?thesis
    by (simp add: CmdLine_payloads_def find_marker_message Let_def unescape_escape)
qed

text \<open>
  Claim C1 says that the receiving side extracts the command line and the working directory
  that the sending side put into the message. The command line does come back (lemma
  above). The working directory does not always: the sender puts it into the message as it
  is, and the receiver removes the backslash before each parenthesis in it. For the command
  line \<^verbatim>\<open>a.cpp \<close> and the directory \<^verbatim>\<open>C:\src\(old)\<close> the receiver gets the directory
  \<^verbatim>\<open>C:\src(old)\<close>.
\<close>

theorem CmdLine_roundtrip_cwd_lost:
  "CmdLine_payloads (CmdLine_message ''a.cpp '' cwd_bad) =
     (''a.cpp '', ''C:'' @ [bsl] @ ''src(old)'') \<and>
   snd (CmdLine_payloads (CmdLine_message ''a.cpp '' cwd_bad)) \<noteq> cwd_bad"
  by code_simp

subsection \<open>Starting up: a running instance, and exceptions\<close>

lemma ParseCmdLine_no_ipc [simp]:
  "filter is_ipc (snd (snd (ParseCmdLine pe h cl cwd a))) = []"
  by (simp add: ParseCmdLine_def Let_def split: option.splits)

lemma LoadConfig_no_ipc [simp]: "filter is_ipc (snd (LoadConfig ce a)) = []"
  by (simp add: LoadConfig_def Let_def)

lemma OnInit_pre_no_ipc [simp]: "filter is_ipc (snd (OnInit_pre env a)) = []"
  by (simp add: OnInit_pre_def)

lemma LoadDelayedFiles_no_ipc [simp]: "filter is_ipc (snd (LoadDelayedFiles fe a)) = []"
  by (auto simp: LoadDelayedFiles_def Let_def filter_empty_conv)

lemma AttachDebugger_no_ipc [simp]: "filter is_ipc (snd (AttachDebugger ds a)) = []"
  by (auto simp: AttachDebugger_def Let_def filter_empty_conv split: option.splits)

lemma OnInit_startup_result:
  "fst (OnInit_startup env a ev) \<and>
   filter is_ipc (snd (snd (OnInit_startup env a ev))) = filter is_ipc ev \<and>
   Call ''InitFrame'' \<in> set (snd (snd (OnInit_startup env a ev)))"
  by (simp add: OnInit_startup_def Let_def)


lemma unwind_no_ipc [simp]: "filter is_ipc (unwind done) = []"
  by (simp add: unwind_def)

lemma unwind_no_frame [simp]: "Call ''InitFrame'' \<notin> set (unwind done)"
  by (simp add: unwind_def)

lemma OnInit_no_throw:
  "i_throw env = None \<Longrightarrow>
   OnInit env a =
     (Inr (fst (OnInit_try env (fst (OnInit_pre env a)))),
      snd (OnInit_pre env a) @ snd (snd (OnInit_try env (fst (OnInit_pre env a)))) @
      unwind (snd (snd (OnInit_try env (fst (OnInit_pre env a))))))"
  by (simp add: OnInit_def try_block_def Let_def)

lemma InitFrame_not_early:
  "Call ''InitFrame'' \<notin> set (snd (OnInit_pre env a))"
  "Call ''InitFrame'' \<notin> set (snd (snd (ParseCmdLine pe False cl cwd a)))"
  "Call ''InitFrame'' \<notin> set (snd (LoadConfig ce a))"
  "Call ''InitFrame'' \<notin> set (forward_to_instance env)"
  by (auto simp: OnInit_pre_def ParseCmdLine_def LoadConfig_def forward_to_instance_def Let_def
           split: option.splits if_splits)

text \<open>
  Claim C2, as stated, fails: a process started without arguments that connects to a
  running instance forwards neither a command line nor its working directory; it only
  sends the raise message, disconnects and ends.
\<close>

theorem OnInit_instance_negotiation_counterexample:
  "i_argv env0 = [] \<and> i_MakeConnection env0 \<and> fst (OnInit env0 fresh_app) = Inr False \<and>
   filter is_ipc (snd (OnInit env0 fresh_app)) =
     [Execute ''[Raise]'', Disconnect, DeleteConnection, DeleteClient]"
  by code_simp

text \<open>
  Claim C2, amended. Let nothing throw, let the first command line pass not ask for help,
  let the configuration and the resources load, and let DDE be enabled (\<^verbatim>\<open>m_DDE\<close> and the
  \<^verbatim>\<open>use_ipc\<close> key) outside batch mode. If the connection to a running instance is made, the
  process sends its command line and working directory in one message when it has at
  least one argument, then the raise message if \<^verbatim>\<open>raise_via_ipc\<close> is set, disconnects, deletes
  connection and client, and \<^verbatim>\<open>OnInit\<close> returns false without creating the main frame. If
  the connection is not made, the client is deleted, nothing is sent, and startup goes on:
  the main frame is created and \<^verbatim>\<open>OnInit\<close> returns true, unless the single instance check
  finds another instance.
\<close>

theorem OnInit_instance_negotiation:
  fixes env :: init_env and a :: app
  defines "a1 \<equiv> fst (snd (ParseCmdLine (i_parse env) False (i_cmdline env) []
                              (fst (OnInit_pre env a))))"
  defines "evs \<equiv> snd (OnInit env a)"
  assumes nothrow: "i_throw env = None"
    and parsed: "parse_res (i_cmdline env) \<noteq> - 1"
    and config: "fst (LoadConfig (i_config env) a1)"
    and resources: "m_Script a1 = [] \<longrightarrow> i_LoadResource env"
    and ipc: "m_DDE a1 \<and> \<not> m_Batch a1 \<and> i_use_ipc env"
  shows
    "(i_MakeConnection env \<longrightarrow>
        fst (OnInit env a) = Inr False \<and>
        filter is_ipc evs =
          (if join_args (i_argv env) \<noteq> []
           then [Execute (CmdLine_message (join_args (i_argv env)) (i_GetCwd env))] else []) @
          (if i_raise_via_ipc env then [Execute ''[Raise]''] else []) @
          [Disconnect, DeleteConnection, DeleteClient] \<and>
        Call ''InitFrame'' \<notin> set evs) \<and>
     (\<not> i_MakeConnection env \<longrightarrow>
        filter is_ipc evs = [DeleteClient] \<and>
        (if i_single_instance env \<and> \<not> Found (i_cmdline env) ''multiple-instance'' \<and>
            i_IsAnotherRunning env
         then fst (OnInit env a) = Inr False \<and> Call ''InitFrame'' \<notin> set evs
         else fst (OnInit env a) = Inr True \<and> Call ''InitFrame'' \<in> set evs))"
proof -
  let ?a0 = "fst (OnInit_pre env a)"
  let ?pre = "snd (OnInit_pre env a)"
  let ?E = "[Call ''wxHandleFatalExceptions(true)'', Call ''InitExceptionHandler'',
             Call ''wxMessageOutput::Set cbMessageOutputNull''] @
            snd (snd (ParseCmdLine (i_parse env) False (i_cmdline env) [] ?a0)) @
            [Call ''PersonalityManager::MarkAsReady''] @
            snd (LoadConfig (i_config env) a1) @
            [Call (if m_SafeMode a1 then ''PluginManager::SetSafeMode(true)''
                   else ''PluginManager::SetSafeMode(false)'')] @
            (if m_Script a1 = [] then [Call ''Manager::LoadResource resources.zip''] else []) @
            [Call ''InitLocale'']"
  have fp: "fst (ParseCmdLine (i_parse env) False (i_cmdline env) [] ?a0) \<noteq> - 1"
    using parsed by (simp add: ParseCmdLine_def Let_def)
  have body: "OnInit_try env ?a0 = OnInit_instance env a1 ?E"
    using fp config resources ipc
    by (auto simp: OnInit_try_def Let_def a1_def)
  have E_ipc: "filter is_ipc ?E = []"
    by simp
  have E_frame: "Call ''InitFrame'' \<notin> set ?E"
    by (simp add: InitFrame_not_early)
  have run: "OnInit env a =
               (Inr (fst (OnInit_instance env a1 ?E)),
                ?pre @ snd (snd (OnInit_instance env a1 ?E)) @
                unwind (snd (snd (OnInit_instance env a1 ?E))))"
    using OnInit_no_throw [OF nothrow, of a] by (simp add: body)
  show ?thesis
  proof (cases "i_MakeConnection env")
    case True
    with ipc have inst: "OnInit_instance env a1 ?E =
        (False, a1, ?E @ [Call ''new DDEClient'', Call ''wxLogNull'',
                          Call ''client->MakeConnection''] @
                    forward_to_instance env)"
      by (simp add: OnInit_instance_def Let_def)
    have fwd: "filter is_ipc (forward_to_instance env) =
          (if join_args (i_argv env) \<noteq> []
           then [Execute (CmdLine_message (join_args (i_argv env)) (i_GetCwd env))] else []) @
          (if i_raise_via_ipc env then [Execute ''[Raise]''] else []) @
          [Disconnect, DeleteConnection, DeleteClient]"
      by (simp add: forward_to_instance_def Let_def)
    from True show ?thesis
      unfolding evs_def run inst
      using E_ipc E_frame fwd
      by (simp add: InitFrame_not_early del: append_assoc append.simps)
  next
    case False
    let ?ev1 = "?E @ [Call ''new DDEClient'', Call ''wxLogNull'',
                      Call ''client->MakeConnection'', DeleteClient, Call ''~wxLogNull'']"
    have ev1_ipc: "filter is_ipc ?ev1 = [DeleteClient]"
      using E_ipc by (simp del: append_assoc append.simps)
    have ev1_frame: "Call ''InitFrame'' \<notin> set ?ev1"
      using E_frame by (simp del: append_assoc append.simps)
    show ?thesis
    proof (cases "i_single_instance env \<and> \<not> Found (i_cmdline env) ''multiple-instance''")
      case single: True
      show ?thesis
      proof (cases "i_IsAnotherRunning env")
        case True
        with False single ipc have inst: "OnInit_instance env a1 ?E =
            (False, a1\<lparr>m_pSingleInstance := True\<rparr>,
             (?ev1 @ [Call ''new wxSingleInstanceChecker'']) @
             [MessageBox ''Another program instance is already running.''])"
          by (simp add: OnInit_instance_def Let_def)
        from True False single show ?thesis
          unfolding evs_def run inst
          using ev1_ipc ev1_frame
          by (simp add: InitFrame_not_early del: append_assoc append.simps)
      next
        case notrunning: False
        with False single ipc have inst: "OnInit_instance env a1 ?E =
            OnInit_startup env (a1\<lparr>m_pSingleInstance := True\<rparr>)
              (?ev1 @ [Call ''new wxSingleInstanceChecker''])"
          by (simp add: OnInit_instance_def Let_def)
        from notrunning False single show ?thesis
          unfolding evs_def run inst
          using ev1_ipc
          by (simp add: OnInit_startup_result InitFrame_not_early del: append_assoc append.simps)
      qed
    next
      case nosingle: False
      with False ipc have inst: "OnInit_instance env a1 ?E = OnInit_startup env a1 ?ev1"
        by (auto simp: OnInit_instance_def Let_def)
      from nosingle False show ?thesis
        unfolding evs_def run inst
        using ev1_ipc
        by (auto simp: OnInit_startup_result InitFrame_not_early simp del: append_assoc append.simps)
    qed
  qed
qed


theorem OnInit_instance_negotiation_witness:
  "filter is_ipc (snd (OnInit (env0\<lparr>i_argv := [''main.cpp'']\<rparr>) fresh_app)) =
     [Execute ''[CmdLine({main.cpp })CWD({C:/work})]'', Execute ''[Raise]'',
      Disconnect, DeleteConnection, DeleteClient] \<and>
   fst (OnInit (env0\<lparr>i_argv := [''main.cpp'']\<rparr>) fresh_app) = Inr False \<and>
   fst (OnInit (env0\<lparr>i_MakeConnection := False\<rparr>) fresh_app) = Inr True \<and>
   filter is_ipc (snd (OnInit (env0\<lparr>i_MakeConnection := False\<rparr>) fresh_app)) = [DeleteClient]"
proof -
  let ?e1 = "env0\<lparr>i_argv := [''main.cpp'']\<rparr>"
  let ?e2 = "env0\<lparr>i_MakeConnection := False\<rparr>"
  have h1: "i_throw ?e1 = None" "parse_res (i_cmdline ?e1) \<noteq> - 1"
    "fst (LoadConfig (i_config ?e1)
       (fst (snd (ParseCmdLine (i_parse ?e1) False (i_cmdline ?e1) []
                    (fst (OnInit_pre ?e1 fresh_app))))))"
    "m_Script (fst (snd (ParseCmdLine (i_parse ?e1) False (i_cmdline ?e1) []
                    (fst (OnInit_pre ?e1 fresh_app))))) = [] \<longrightarrow> i_LoadResource ?e1"
    "m_DDE (fst (snd (ParseCmdLine (i_parse ?e1) False (i_cmdline ?e1) []
                    (fst (OnInit_pre ?e1 fresh_app))))) \<and>
     \<not> m_Batch (fst (snd (ParseCmdLine (i_parse ?e1) False (i_cmdline ?e1) []
                    (fst (OnInit_pre ?e1 fresh_app))))) \<and> i_use_ipc ?e1"
    by code_simp+
  have h2: "i_throw ?e2 = None" "parse_res (i_cmdline ?e2) \<noteq> - 1"
    "fst (LoadConfig (i_config ?e2)
       (fst (snd (ParseCmdLine (i_parse ?e2) False (i_cmdline ?e2) []
                    (fst (OnInit_pre ?e2 fresh_app))))))"
    "m_Script (fst (snd (ParseCmdLine (i_parse ?e2) False (i_cmdline ?e2) []
                    (fst (OnInit_pre ?e2 fresh_app))))) = [] \<longrightarrow> i_LoadResource ?e2"
    "m_DDE (fst (snd (ParseCmdLine (i_parse ?e2) False (i_cmdline ?e2) []
                    (fst (OnInit_pre ?e2 fresh_app))))) \<and>
     \<not> m_Batch (fst (snd (ParseCmdLine (i_parse ?e2) False (i_cmdline ?e2) []
                    (fst (OnInit_pre ?e2 fresh_app))))) \<and> i_use_ipc ?e2"
    by code_simp+
  have c1: "i_MakeConnection ?e1" "i_raise_via_ipc ?e1" "i_GetCwd ?e1 = ''C:/work''"
    "join_args (i_argv ?e1) = ''main.cpp ''"
    by (simp_all add: env0_def join_args_def)
  have m1: "CmdLine_message ''main.cpp '' ''C:/work'' = ''[CmdLine({main.cpp })CWD({C:/work})]''"
    by code_simp
  have c2: "\<not> i_MakeConnection ?e2" "\<not> i_IsAnotherRunning ?e2"
    by (simp_all add: env0_def)
  from OnInit_instance_negotiation [OF h1] c1 m1
  have "filter is_ipc (snd (OnInit ?e1 fresh_app)) =
     [Execute ''[CmdLine({main.cpp })CWD({C:/work})]'', Execute ''[Raise]'',
      Disconnect, DeleteConnection, DeleteClient] \<and> fst (OnInit ?e1 fresh_app) = Inr False"
    by simp
  moreover from OnInit_instance_negotiation [OF h2] c2
  have "fst (OnInit ?e2 fresh_app) = Inr True \<and>
        filter is_ipc (snd (OnInit ?e2 fresh_app)) = [DeleteClient]"
    by simp
  ultimately show ?thesis by simp
qed



lemma ParseCmdLine_no_report [simp]:
  "filter is_report (snd (snd (ParseCmdLine pe h cl cwd a))) = []"
  by (simp add: ParseCmdLine_def Let_def split: option.splits)

lemma LoadConfig_no_report [simp]: "filter is_report (snd (LoadConfig ce a)) = []"
  by (simp add: LoadConfig_def Let_def)

lemma OnInit_pre_no_report [simp]: "filter is_report (snd (OnInit_pre env a)) = []"
  by (simp add: OnInit_pre_def)

lemma LoadDelayedFiles_no_report [simp]: "filter is_report (snd (LoadDelayedFiles fe a)) = []"
  by (auto simp: LoadDelayedFiles_def Let_def filter_empty_conv)

lemma AttachDebugger_no_report [simp]: "filter is_report (snd (AttachDebugger ds a)) = []"
  by (auto simp: AttachDebugger_def Let_def filter_empty_conv split: option.splits)

lemma unwind_no_report [simp]: "filter is_report (unwind done) = []"
  by (simp add: unwind_def)

lemma OnInit_startup_no_report:
  "filter is_report (snd (snd (OnInit_startup env a ev))) = filter is_report ev"
  by (simp add: OnInit_startup_def Let_def)

lemma OnInit_instance_no_report:
  "filter is_report (snd (snd (OnInit_instance env a ev))) = filter is_report ev"
  by (simp add: OnInit_instance_def forward_to_instance_def Let_def OnInit_startup_no_report)

lemma OnInit_try_no_report [simp]: "filter is_report (snd (snd (OnInit_try env a))) = []"
  by (simp add: OnInit_try_def Let_def OnInit_instance_no_report)


lemma is_report_report [simp]: "is_report (report_exception x)"
  by (cases x) simp_all



subsection \<open>Starting up: batch mode\<close>

lemma scan_params_script [simp]: "m_Script (scan_params pe cwd ps a) = m_Script a"
  by (induction ps arbitrary: a) (simp_all add: Let_def)

lemma ParseCmdLine_frame_batch:
  "parse_res cl \<noteq> - 1 \<Longrightarrow>
   m_Batch (fst (snd (ParseCmdLine pe True cl cwd b))) =
     ((\<exists>p\<in>set (params cl). FileTypeOf pe p = ftCodeBlocksProject \<or>
                            FileTypeOf pe p = ftCodeBlocksWorkspace) \<and>
      (m_Build b \<or> m_ReBuild b \<or> m_Clean b)) \<and>
   m_Script (fst (snd (ParseCmdLine pe True cl cwd b))) = m_Script b"
  by (simp add: ParseCmdLine_def Let_def scan_params_has_any)

lemma ParseCmdLine_first_pass:
  "parse_res cl \<noteq> - 1 \<Longrightarrow>
   m_Batch (fst (snd (ParseCmdLine pe False cl cwd a))) =
     (Found cl ''build'' \<or> Found cl ''rebuild'' \<or> Found cl ''clean'') \<and>
   m_Build (fst (snd (ParseCmdLine pe False cl cwd a))) = Found cl ''build'' \<and>
   m_ReBuild (fst (snd (ParseCmdLine pe False cl cwd a))) = Found cl ''rebuild'' \<and>
   m_Clean (fst (snd (ParseCmdLine pe False cl cwd a))) = Found cl ''clean''"
  by (simp add: ParseCmdLine_def Let_def)

lemma LoadDelayedFiles_batch [simp]: "m_Batch (fst (LoadDelayedFiles fe a)) = m_Batch a"
  by (simp add: LoadDelayedFiles_def Let_def)

lemma AttachDebugger_batch [simp]: "m_Batch (fst (AttachDebugger ds a)) = m_Batch a"
  by (simp add: AttachDebugger_def Let_def split: option.splits)

lemma ParseCmdLine_no_mode [simp]:
  "filter is_mode_step (snd (snd (ParseCmdLine pe h cl cwd a))) = []"
  by (simp add: ParseCmdLine_def Let_def split: option.splits)

lemma LoadConfig_no_mode [simp]: "filter is_mode_step (snd (LoadConfig ce a)) = []"
  by (simp add: LoadConfig_def Let_def)

lemma OnInit_pre_no_mode [simp]: "filter is_mode_step (snd (OnInit_pre env a)) = []"
  by (simp add: OnInit_pre_def)

lemma LoadDelayedFiles_no_mode [simp]: "filter is_mode_step (snd (LoadDelayedFiles fe a)) = []"
  by (auto simp: LoadDelayedFiles_def Let_def filter_empty_conv)

lemma AttachDebugger_no_mode [simp]: "filter is_mode_step (snd (AttachDebugger ds a)) = []"
  by (auto simp: AttachDebugger_def Let_def filter_empty_conv split: option.splits)

lemma unwind_no_mode [simp]: "filter is_mode_step (unwind done) = []"
  by (simp add: unwind_def)

lemma filter_mode_if_empty [simp]:
  "filter is_mode_step xs = [] \<Longrightarrow> filter is_mode_step ys = [] \<Longrightarrow>
   filter is_mode_step (if c then xs else ys) = []"
  by simp

lemma OnInit_startup_modes:
  fixes env :: init_env and b :: app and ev :: "event list"
  assumes parsed: "parse_res (i_cmdline env) \<noteq> - 1"
  defines "proj \<equiv> \<exists>p\<in>set (params (i_cmdline env)).
                     FileTypeOf (i_parse env) p = ftCodeBlocksProject \<or>
                     FileTypeOf (i_parse env) p = ftCodeBlocksWorkspace"
  defines "final \<equiv> proj \<and> (m_Build b \<or> m_ReBuild b \<or> m_Clean b)"
  shows "fst (OnInit_startup env b ev)"
    and "m_Batch (fst (snd (OnInit_startup env b ev))) = final"
    and "filter is_mode_step (snd (snd (OnInit_startup env b ev))) =
           filter is_mode_step ev @
           (if m_DDE b \<and> \<not> m_Batch b then [Call ''new DDEServer''] else []) @
           (if \<not> m_Batch b then [Call ''UserVariableManager::SetUI''] else []) @
           [Call (if m_Batch b \<or> m_Script b \<noteq> [] then ''Manager::SetBatchBuild(true)''
                  else ''Manager::SetBatchBuild(false)'')] @
           (if final then [Call ''CallAfter BatchJob'']
            else if m_Script b \<noteq> [] then [] else [Call ''frame->Show''])"
proof -
  let ?b2 = "(if m_DDE b \<and> \<not> m_Batch b then b\<lparr>g_DDEServer := True\<rparr> else b)\<lparr>m_Frame := True\<rparr>"
  let ?a3 = "fst (snd (ParseCmdLine (i_parse env) True (i_cmdline env) [] ?b2))"
  from ParseCmdLine_frame_batch [OF parsed, of "i_parse env" "[]" ?b2]
  have b3: "m_Batch ?a3 = final" and s3: "m_Script ?a3 = m_Script b"
    by (simp_all add: final_def proj_def)
  show "fst (OnInit_startup env b ev)"
    by (simp add: OnInit_startup_def Let_def)
  show "m_Batch (fst (snd (OnInit_startup env b ev))) = final"
    using b3 by (simp add: OnInit_startup_def Let_def)
  show "filter is_mode_step (snd (snd (OnInit_startup env b ev))) =
           filter is_mode_step ev @
           (if m_DDE b \<and> \<not> m_Batch b then [Call ''new DDEServer''] else []) @
           (if \<not> m_Batch b then [Call ''UserVariableManager::SetUI''] else []) @
           [Call (if m_Batch b \<or> m_Script b \<noteq> [] then ''Manager::SetBatchBuild(true)''
                  else ''Manager::SetBatchBuild(false)'')] @
           (if final then [Call ''CallAfter BatchJob'']
            else if m_Script b \<noteq> [] then [] else [Call ''frame->Show''])"
    using b3 s3 unfolding OnInit_startup_def Let_def
    by (cases final; cases "m_Script b = []"; cases "m_Batch b"; cases "m_DDE b";
        cases "m_Splash b \<and> i_show_splash env"; simp)
qed


text \<open>
  Claim C10, as stated, fails. In a start with \<^verbatim>\<open>--build main.cpp\<close>, without a project or
  workspace, the first pass sets the batch flag from the switch alone (line 1260), and
  \<^verbatim>\<open>OnInit\<close> acts on that value before the second pass (line 763) recomputes it: the
  resources are not loaded (line 667), no IPC client and no DDE server are created (lines
  673, 733), the variable manager gets no user interface (line 740), and the manager is put
  into batch mode by \<^verbatim>\<open>Manager::SetBatchBuild(true)\<close> (line 748). Only then the flag becomes
  false, and the frame is shown. A start without arguments takes all the steps left out
  here.
\<close>

theorem OnInit_batch_mode_counterexample:
  "fst (OnInit env_build fresh_app) = Inr True \<and>
   \<not> m_Batch (OnInit_state env_build fresh_app) \<and>
   filter is_mode_step (snd (OnInit env_build fresh_app)) =
     [Call ''Manager::SetBatchBuild(true)'', Call ''frame->Show''] \<and>
   filter is_mode_step (snd (OnInit (env0\<lparr>i_MakeConnection := False\<rparr>) fresh_app)) =
     [Call ''Manager::LoadResource resources.zip'', Call ''new DDEClient'', Call ''new DDEServer'',
      Call ''UserVariableManager::SetUI'', Call ''Manager::SetBatchBuild(false)'',
      Call ''frame->Show'']"
  by code_simp

text \<open>
  Claim C10, amended. Consider a start that reaches the second pass: nothing throws, the
  command line parses, the configuration loads, the resources load when they are asked
  for, and the start is neither forwarded to a running instance nor stopped by the
  single-instance check. Then \<^verbatim>\<open>OnInit\<close> returns true. The batch flag after the second
  pass, which is also its value when \<^verbatim>\<open>OnInit\<close> returns, holds exactly when a project or a
  workspace file is among the parameters and one of \<^verbatim>\<open>--build\<close>, \<^verbatim>\<open>--rebuild\<close>, \<^verbatim>\<open>--clean\<close>
  was given; exactly then the batch job is queued, and otherwise the frame is shown (unless
  a script was given). The steps before the second pass follow the switches alone: with
  one of them given, the resources, the IPC client, the DDE server and the user interface
  of the variable manager are left out and \<^verbatim>\<open>Manager::SetBatchBuild(true)\<close> is called,
  whether or not a project or workspace was given.
\<close>

theorem OnInit_batch_mode:
  fixes env :: init_env and a :: app
  defines "a1 \<equiv> fst (snd (ParseCmdLine (i_parse env) False (i_cmdline env) []
                              (fst (OnInit_pre env a))))"
  defines "switch \<equiv> Found (i_cmdline env) ''build'' \<or> Found (i_cmdline env) ''rebuild'' \<or>
                     Found (i_cmdline env) ''clean''"
  defines "proj \<equiv> \<exists>p\<in>set (params (i_cmdline env)).
                     FileTypeOf (i_parse env) p = ftCodeBlocksProject \<or>
                     FileTypeOf (i_parse env) p = ftCodeBlocksWorkspace"
  assumes nothrow: "i_throw env = None"
    and parsed: "parse_res (i_cmdline env) \<noteq> - 1"
    and config: "fst (LoadConfig (i_config env) a1)"
    and resources: "\<not> switch \<and> m_Script a1 = [] \<longrightarrow> i_LoadResource env"
    and noforward: "\<not> (m_DDE a1 \<and> \<not> switch \<and> i_use_ipc env \<and> i_MakeConnection env)"
    and alone: "\<not> (i_single_instance env \<and> \<not> Found (i_cmdline env) ''multiple-instance'' \<and>
                     i_IsAnotherRunning env)"
  shows
    "fst (OnInit env a) = Inr True \<and>
     m_Batch (OnInit_state env a) = (proj \<and> switch) \<and>
     filter is_mode_step (snd (OnInit env a)) =
       (if \<not> switch \<and> m_Script a1 = [] then [Call ''Manager::LoadResource resources.zip'']
        else []) @
       (if m_DDE a1 \<and> \<not> switch \<and> i_use_ipc env then [Call ''new DDEClient''] else []) @
       (if m_DDE a1 \<and> \<not> switch then [Call ''new DDEServer''] else []) @
       (if \<not> switch then [Call ''UserVariableManager::SetUI''] else []) @
       [Call (if switch \<or> m_Script a1 \<noteq> [] then ''Manager::SetBatchBuild(true)''
              else ''Manager::SetBatchBuild(false)'')] @
       (if proj \<and> switch then [Call ''CallAfter BatchJob'']
        else if m_Script a1 \<noteq> [] then [] else [Call ''frame->Show''])"
proof -
  let ?a0 = "fst (OnInit_pre env a)"
  let ?pre = "snd (OnInit_pre env a)"
  let ?xrc = "\<not> switch \<and> m_Script a1 = []"
  let ?ipc = "m_DDE a1 \<and> \<not> switch \<and> i_use_ipc env"
  let ?E = "[Call ''wxHandleFatalExceptions(true)'', Call ''InitExceptionHandler'',
             Call ''wxMessageOutput::Set cbMessageOutputNull''] @
            snd (snd (ParseCmdLine (i_parse env) False (i_cmdline env) [] ?a0)) @
            [Call ''PersonalityManager::MarkAsReady''] @
            snd (LoadConfig (i_config env) a1) @
            [Call (if m_SafeMode a1 then ''PluginManager::SetSafeMode(true)''
                   else ''PluginManager::SetSafeMode(false)'')] @
            (if ?xrc then [Call ''Manager::LoadResource resources.zip''] else []) @
            [Call ''InitLocale'']"
  let ?ev1 = "?E @ (if ?ipc then [Call ''new DDEClient'', Call ''wxLogNull'',
                                 Call ''client->MakeConnection'', DeleteClient,
                                 Call ''~wxLogNull'']
                    else [])"
  have flags: "m_Batch a1 = switch" "m_Build a1 = Found (i_cmdline env) ''build''"
    "m_ReBuild a1 = Found (i_cmdline env) ''rebuild''"
    "m_Clean a1 = Found (i_cmdline env) ''clean''"
    using ParseCmdLine_first_pass [OF parsed, of "i_parse env" "[]" ?a0]
    by (simp_all add: a1_def switch_def)
  have fp: "fst (ParseCmdLine (i_parse env) False (i_cmdline env) [] ?a0) \<noteq> - 1"
    using parsed by (simp add: ParseCmdLine_def Let_def)
  have body: "OnInit_try env ?a0 = OnInit_instance env a1 ?E"
    using fp config resources flags(1)
    by (auto simp: OnInit_try_def Let_def a1_def)
  have E_mode: "filter is_mode_step ?E =
                  (if ?xrc then [Call ''Manager::LoadResource resources.zip''] else [])"
    by (cases "m_SafeMode a1") simp_all
  have ev1_mode: "filter is_mode_step ?ev1 =
                  (if ?xrc then [Call ''Manager::LoadResource resources.zip''] else []) @
                  (if ?ipc then [Call ''new DDEClient''] else [])"
    using E_mode by (simp del: append_assoc append.simps)
  obtain b ev where inst: "OnInit_instance env a1 ?E = OnInit_startup env b ev"
    and b: "m_Batch b = m_Batch a1" "m_DDE b = m_DDE a1" "m_Script b = m_Script a1"
           "m_Build b = m_Build a1" "m_ReBuild b = m_ReBuild a1" "m_Clean b = m_Clean a1"
    and ev: "filter is_mode_step ev = filter is_mode_step ?ev1"
  proof (cases "i_single_instance env \<and> \<not> Found (i_cmdline env) ''multiple-instance''")
    case True
    with alone noforward flags(1)
    have "OnInit_instance env a1 ?E =
            OnInit_startup env (a1\<lparr>m_pSingleInstance := True\<rparr>)
              (?ev1 @ [Call ''new wxSingleInstanceChecker''])"
      by (auto simp: OnInit_instance_def Let_def)
    then show ?thesis
      by (rule that) (simp_all del: append_assoc append.simps)
  next
    case False
    with noforward flags(1)
    have "OnInit_instance env a1 ?E = OnInit_startup env a1 ?ev1"
      by (auto simp: OnInit_instance_def Let_def)
    then show ?thesis
      by (rule that) simp_all
  qed
  have run: "OnInit env a =
               (Inr (fst (OnInit_startup env b ev)),
                ?pre @ snd (snd (OnInit_startup env b ev)) @
                unwind (snd (snd (OnInit_startup env b ev))))"
    using OnInit_no_throw [OF nothrow, of a] by (simp only: body inst)
  have st: "OnInit_state env a = fst (snd (OnInit_startup env b ev))"
    by (simp only: OnInit_state_def body inst)
  note modes = OnInit_startup_modes [OF parsed, of b ev]
  have final: "((\<exists>p\<in>set (params (i_cmdline env)).
                   FileTypeOf (i_parse env) p = ftCodeBlocksProject \<or>
                   FileTypeOf (i_parse env) p = ftCodeBlocksWorkspace) \<and>
                (m_Build b \<or> m_ReBuild b \<or> m_Clean b)) = (proj \<and> switch)"
    using b flags by (simp add: proj_def switch_def)
  have r1: "fst (OnInit env a) = Inr True"
    using modes(1) by (simp add: run)
  have r2: "m_Batch (OnInit_state env a) = (proj \<and> switch)"
    using modes(2) final by (simp add: st)
  have r3: "filter is_mode_step (snd (OnInit env a)) =
       (if ?xrc then [Call ''Manager::LoadResource resources.zip''] else []) @
       (if ?ipc then [Call ''new DDEClient''] else []) @
       (if m_DDE a1 \<and> \<not> switch then [Call ''new DDEServer''] else []) @
       (if \<not> switch then [Call ''UserVariableManager::SetUI''] else []) @
       [Call (if switch \<or> m_Script a1 \<noteq> [] then ''Manager::SetBatchBuild(true)''
              else ''Manager::SetBatchBuild(false)'')] @
       (if proj \<and> switch then [Call ''CallAfter BatchJob'']
        else if m_Script a1 \<noteq> [] then [] else [Call ''frame->Show''])"
    unfolding run snd_conv filter_append modes(3) final ev ev1_mode
    using b flags(1) by (simp del: append_assoc)
  from r1 r2 r3 show ?thesis by blast
qed

theorem OnInit_batch_mode_witness:
  "fst (OnInit (env_build\<lparr>i_cmdline := cl_build\<rparr>) fresh_app) = Inr True \<and>
   m_Batch (OnInit_state (env_build\<lparr>i_cmdline := cl_build\<rparr>) fresh_app) \<and>
   filter is_mode_step (snd (OnInit (env_build\<lparr>i_cmdline := cl_build\<rparr>) fresh_app)) =
     [Call ''Manager::SetBatchBuild(true)'', Call ''CallAfter BatchJob''] \<and>
   \<not> m_Batch (OnInit_state env_build fresh_app) \<and>
   filter is_mode_step (snd (OnInit env_build fresh_app)) =
     [Call ''Manager::SetBatchBuild(true)'', Call ''frame->Show'']"
proof -
  let ?E = "env_build\<lparr>i_cmdline := cl_build\<rparr>"
  let ?a1 = "fst (snd (ParseCmdLine (i_parse ?E) False (i_cmdline ?E) []
                        (fst (OnInit_pre ?E fresh_app))))"
  let ?b1 = "fst (snd (ParseCmdLine (i_parse env_build) False (i_cmdline env_build) []
                        (fst (OnInit_pre env_build fresh_app))))"
  have e1: "i_throw ?E = None" by code_simp
  have e2: "parse_res (i_cmdline ?E) \<noteq> - 1" by code_simp
  have e3: "fst (LoadConfig (i_config ?E) ?a1)" by code_simp
  have e4: "\<not> (i_single_instance ?E \<and> \<not> Found (i_cmdline ?E) ''multiple-instance'' \<and>
                i_IsAnotherRunning ?E)"
    by code_simp
  have e5: "Found (i_cmdline ?E) ''build''" by code_simp
  have e6: "\<exists>p\<in>set (params (i_cmdline ?E)).
              FileTypeOf (i_parse ?E) p = ftCodeBlocksProject \<or>
              FileTypeOf (i_parse ?E) p = ftCodeBlocksWorkspace"
    by code_simp
  have e7: "m_Script ?a1 = []" by code_simp
  from OnInit_batch_mode [OF e1 e2 e3 _ _ e4] e5 e6 e7
  have 1: "fst (OnInit ?E fresh_app) = Inr True \<and> m_Batch (OnInit_state ?E fresh_app) \<and>
           filter is_mode_step (snd (OnInit ?E fresh_app)) =
             [Call ''Manager::SetBatchBuild(true)'', Call ''CallAfter BatchJob'']"
    by simp
  have b1: "i_throw env_build = None" by code_simp
  have b2: "parse_res (i_cmdline env_build) \<noteq> - 1" by code_simp
  have b3: "fst (LoadConfig (i_config env_build) ?b1)" by code_simp
  have b4: "\<not> (i_single_instance env_build \<and>
                \<not> Found (i_cmdline env_build) ''multiple-instance'' \<and>
                i_IsAnotherRunning env_build)"
    by code_simp
  have b5: "Found (i_cmdline env_build) ''build''" by code_simp
  have b6: "\<not> (\<exists>p\<in>set (params (i_cmdline env_build)).
              FileTypeOf (i_parse env_build) p = ftCodeBlocksProject \<or>
              FileTypeOf (i_parse env_build) p = ftCodeBlocksWorkspace)"
    by code_simp
  have b7: "m_Script ?b1 = []" by code_simp
  from OnInit_batch_mode [OF b1 b2 b3 _ _ b4] b5 b6 b7
  have 2: "\<not> m_Batch (OnInit_state env_build fresh_app) \<and>
           filter is_mode_step (snd (OnInit env_build fresh_app)) =
             [Call ''Manager::SetBatchBuild(true)'', Call ''frame->Show'']"
    by simp
  from 1 2 show ?thesis by simp
qed

end
